theory Spec2Isabelle
  imports Main "HOL-Library.Sublist"
begin

section \<open>Python strings and integers\<close>

text \<open>
  Text is modelled as \<open>string\<close> over the ASCII range. \<open>py_isspace\<close> lists the ASCII
  characters that \<open>str.strip()\<close> removes; \<open>py_int\<close> is \<open>int(s)\<close> on decimal text:
  surrounding whitespace, one optional sign, digits with single underscores between
  digits. \<open>None\<close> stands for \<open>ValueError\<close>.
\<close>

definition py_isspace :: "char \<Rightarrow> bool" where
  "py_isspace c = (of_char c \<in> {9, 10, 11, 12, 13, 28, 29, 30, 31, 32 :: nat})"

definition lstrip :: "string \<Rightarrow> string" where
  "lstrip s = dropWhile py_isspace s"

definition rstrip :: "string \<Rightarrow> string" where
  "rstrip s = rev (dropWhile py_isspace (rev s))"

definition strip :: "string \<Rightarrow> string" where
  "strip s = rstrip (lstrip s)"

definition is_digit :: "char \<Rightarrow> bool" where
  "is_digit c = (48 \<le> (of_char c :: nat) \<and> (of_char c :: nat) \<le> 57)"

definition digit_of :: "char \<Rightarrow> nat" where
  "digit_of c = of_char c - 48"

fun int_digits :: "nat \<Rightarrow> bool \<Rightarrow> string \<Rightarrow> nat option" where
  "int_digits acc prev_digit [] = (if prev_digit then Some acc else None)"
| "int_digits acc prev_digit (c # cs) =
     (if is_digit c then int_digits (10 * acc + digit_of c) True cs
      else if c = CHR ''_'' \<and> prev_digit then int_digits acc False cs
      else None)"

definition py_int :: "string \<Rightarrow> int option" where
  "py_int s =
     (case strip s of
        [] \<Rightarrow> None
      | c # cs \<Rightarrow>
          if c = CHR ''-'' then map_option (\<lambda>n. - int n) (int_digits 0 False cs)
          else if c = CHR ''+'' then map_option int (int_digits 0 False cs)
          else map_option int (int_digits 0 False (c # cs)))"

definition join_with :: "string \<Rightarrow> string list \<Rightarrow> string" where
  "join_with sep xs = (case xs of [] \<Rightarrow> [] | y # ys \<Rightarrow> y @ concat (map (\<lambda>z. sep @ z) ys))"

section \<open>The remote side\<close>

text \<open>
  Every command line the tools build is an f-string template filled with paths and
  names. A command is represented by the template it comes from, applied to the values
  interpolated into it:
  \<^item> \<open>CountZips p\<close>: \<open>$zipCount = (Get-ChildItem -Path p -Filter *.zip ...).Count; Write-Host $zipCount\<close>
  \<^item> \<open>ZipInfo p\<close>: name and last write time of the first \<open>*.zip\<close> under \<open>p\<close>
  \<^item> \<open>FolderInfo p\<close>: last write time of \<open>p\<close>
  \<^item> \<open>NewTempFolder b t\<close>: create \<open>b\<close> if missing, then \<open>t\<close>
  \<^item> \<open>ExpandArchive z d\<close>: \<open>Expand-Archive -Path z -DestinationPath d -Force\<close>
  \<^item> \<open>PreventiveCopy s b\<close>: \<open>New-Item b; robocopy s b /E /Z /R:3 /W:5\<close>
  \<^item> \<open>RemoveTemp t\<close>: \<open>Remove-Item -Path t -Recurse -Force\<close>
  \<^item> \<open>AppcmdStop n\<close>, \<open>AppcmdStart n\<close>: \<open>appcmd stop site "n"\<close>, \<open>appcmd start site "n"\<close>
  \<^item> \<open>GetWebsiteState n\<close>: \<open>$site = Get-Website -Name n; if ($site) { $site.State } else { "NotFound" }\<close>
  \<^item> \<open>RemoveContents p\<close>, \<open>RemoveFolder p\<close>: delete below \<open>p\<close>, or \<open>p\<close> itself
  \<^item> \<open>Robocopy s d\<close>: \<open>robocopy "s" "d" /E /Z /B /MT:16 /R:3 /W:5\<close>

  \<open>execute_command\<close> sends the line either wrapped as \<open>powershell -Command "..."\<close> or as it
  is; \<open>shell_line\<close> keeps the two apart. The templates of \<open>backup_tool.py\<close> and those of
  \<open>get_site_state\<close> and \<open>delete_site_content\<close> carry that prefix themselves and are
  wrapped once more. What the host makes of a line is not fixed here: it is the
  \<open>client_exec\<close> of the surroundings.
\<close>

datatype remote_cmd =
    CountZips string
  | ZipInfo string
  | FolderInfo string
  | NewTempFolder string string
  | ExpandArchive string string
  | PreventiveCopy string string
  | RemoveTemp string
  | AppcmdStop string
  | AppcmdStart string
  | GetWebsiteState string
  | RemoveContents string
  | RemoveFolder string
  | Robocopy string string

datatype shell_line = PowerShell remote_cmd | Direct remote_cmd

text \<open>
  What \<open>client.exec_command\<close> followed by the two reads and \<open>recv_exit_status\<close> gives:
  the decoded standard output, standard error and the exit status, or an exception
  (with its \<open>str\<close>) raised anywhere inside the \<open>try\<close> block.
\<close>

datatype exec_outcome = Completed string string int | Raised string

text \<open>The keyword arguments of \<open>client.connect\<close>: hostname, port, username, timeout,
  password, key_filename.\<close>

datatype connect_params =
  ConnectParams string int string int "string option" "string option"

text \<open>Exceptions on the connection path, and those that can reach the handler of
  \<open>execute_rollback\<close>. \<open>RetryError\<close> is what the retry decorator raises when it gives up.\<close>

datatype conn_exn =
    ValueError string
  | AuthenticationException string
  | SSHException string
  | SocketError string
  | RetryError conn_exn

datatype py_exn = RuntimeError string | NameError string | AttributeError string

fun str_exn :: "py_exn \<Rightarrow> string" where
  "str_exn (RuntimeError m) = m"
| "str_exn (NameError m) = m"
| "str_exn (AttributeError m) = m"

record cmd_result =
  success :: bool
  stdout :: string
  stderr :: string
  return_code :: int

datatype event =
    Dial connect_params
  | Backoff nat
  | Ran shell_line cmd_result
  | Close

type_synonym datetime = nat

text \<open>
  The surroundings of the program: the local file system and clock, the functions of
  \<open>os.path\<close> (whose results depend on the platform the tool runs on), \<open>strftime\<close> with
  the format \<open>%Y%m%d_%H%M%S\<close>, \<open>strptime\<close> with \<open>%Y-%m-%d %H:%M:%S\<close> (\<open>None\<close> for
  \<open>ValueError\<close>), and the SSH client. The world \<open>'w\<close> changes with every connection
  attempt and every command.
\<close>

record 'w env =
  path_exists :: "string \<Rightarrow> bool"
  expanduser :: "string \<Rightarrow> string"
  path_join :: "string \<Rightarrow> string \<Rightarrow> string"
  path_dirname :: "string \<Rightarrow> string"
  path_basename :: "string \<Rightarrow> string"
  now :: "'w \<Rightarrow> datetime"
  strftime :: "datetime \<Rightarrow> string"
  strptime :: "string \<Rightarrow> datetime option"
  client_connect :: "'w \<Rightarrow> connect_params \<Rightarrow> conn_exn option \<times> 'w"
  client_exec :: "'w \<Rightarrow> shell_line \<Rightarrow> int \<Rightarrow> exec_outcome \<times> 'w"

text \<open>The world together with the record of what the program did to it, oldest first.\<close>

record 'w sys =
  world :: 'w
  log :: "event list"

definition init_sys :: "'w \<Rightarrow> 'w sys" where
  "init_sys w = \<lparr>world = w, log = []\<rparr>"

section \<open>ssh\_tool.py\<close>

record SSHConfig =
  host :: string
  username :: string
  port :: int
  password :: "string option"
  key_path :: "string option"
  timeout :: int

text \<open>\<open>client\<close> tells whether \<open>self.client\<close> holds an \<open>SSHClient\<close> object.\<close>

record SSHExecutor =
  config :: SSHConfig
  client :: bool
  connected :: bool

definition truthy :: "string option \<Rightarrow> bool" where
  "truthy v = (case v of None \<Rightarrow> False | Some s \<Rightarrow> s \<noteq> [])"

definition validate_config :: "'w env \<Rightarrow> SSHConfig \<Rightarrow> conn_exn option" where
  "validate_config E cfg =
     (if \<not> truthy (password cfg) \<and> \<not> truthy (key_path cfg)
      then Some (ValueError ''Either SSH password or SSH key path must be provided'')
      else if truthy (key_path cfg)
      then (let kp = expanduser E (the (key_path cfg))
            in if \<not> path_exists E kp
               then Some (ValueError (''SSH key file not found: '' @ kp))
               else None)
      else None)"

text \<open>\<open>SSHExecutor.__init__\<close>.\<close>

definition new_executor :: "'w env \<Rightarrow> SSHConfig \<Rightarrow> conn_exn + SSHExecutor" where
  "new_executor E cfg =
     (case validate_config E cfg of
        Some e \<Rightarrow> Inl e
      | None \<Rightarrow> Inr \<lparr>config = cfg, client = False, connected = False\<rparr>)"

definition connect_params_of :: "'w env \<Rightarrow> SSHConfig \<Rightarrow> connect_params" where
  "connect_params_of E cfg =
     ConnectParams (host cfg) (port cfg) (username cfg) (timeout cfg)
       (if truthy (password cfg) then password cfg else None)
       (if truthy (password cfg) then None
        else if truthy (key_path cfg) then Some (expanduser E (the (key_path cfg)))
        else None)"

text \<open>
  \<open>_connect_with_retry\<close> under \<open>@retry(stop=stop_after_attempt(3),
  wait=wait_exponential(multiplier=1, min=2, max=10))\<close>. The decorator is given no
  \<open>retry=\<close> predicate and no \<open>reraise\<close>, so the library's defaults apply: an attempt that
  raises any exception is retried, and when the stop condition holds after a failed
  attempt, \<open>RetryError\<close> is raised around the last exception. \<open>Backoff k\<close> is the sleep
  that follows failed attempt \<open>k\<close>.
\<close>

function connect_with_retry ::
  "'w env \<Rightarrow> SSHConfig \<Rightarrow> nat \<Rightarrow> 'w sys \<Rightarrow> conn_exn option \<times> 'w sys" where
  "connect_with_retry E cfg attempt_number s =
     (let p = connect_params_of E cfg;
          (r, w') = client_connect E (world s) p;
          s' = s\<lparr>world := w', log := log s @ [Dial p]\<rparr>
      in case r of
           None \<Rightarrow> (None, s')
         | Some e \<Rightarrow>
             if 3 \<le> attempt_number then (Some (RetryError e), s')
             else connect_with_retry E cfg (Suc attempt_number)
                    (s'\<lparr>log := log s' @ [Backoff attempt_number]\<rparr>))"
  by pat_completeness auto
termination
  by (relation "measure (\<lambda>(E, cfg, k, s). 3 - k)") auto

declare connect_with_retry.simps [simp del]

definition connect ::
  "'w env \<Rightarrow> SSHExecutor \<Rightarrow> 'w sys \<Rightarrow> (conn_exn + bool) \<times> SSHExecutor \<times> 'w sys" where
  "connect E ex s =
     (if connected ex then (Inr True, ex, s)
      else
        (let ex1 = ex\<lparr>client := True\<rparr>
         in case connect_with_retry E (config ex1) 1 s of
              (None, s') \<Rightarrow> (Inr True, ex1\<lparr>connected := True\<rparr>, s')
            | (Some e, s') \<Rightarrow> (Inl e, ex1\<lparr>connected := False\<rparr>, s')))"

definition disconnect :: "SSHExecutor \<Rightarrow> 'w sys \<Rightarrow> SSHExecutor \<times> 'w sys" where
  "disconnect ex s =
     (if client ex \<and> connected ex
      then (ex\<lparr>connected := False\<rparr>, s\<lparr>log := log s @ [Close]\<rparr>)
      else (ex, s))"

definition execute_command ::
  "'w env \<Rightarrow> SSHExecutor \<Rightarrow> remote_cmd \<Rightarrow> int \<Rightarrow> bool \<Rightarrow> 'w sys
     \<Rightarrow> (py_exn + cmd_result) \<times> 'w sys" where
  "execute_command E ex command tmo powershell s =
     (if \<not> connected ex
      then (Inl (RuntimeError ''Not connected to SSH server. Call connect() first.''), s)
      else
        (let full_command = (if powershell then PowerShell command else Direct command);
             (out, w') = client_exec E (world s) full_command tmo;
             result =
               (case out of
                  Completed stdout_content stderr_content exit_code \<Rightarrow>
                    \<lparr>success = (exit_code = 0),
                     stdout = strip stdout_content,
                     stderr = strip stderr_content,
                     return_code = exit_code\<rparr>
                | Raised msg \<Rightarrow>
                    \<lparr>success = False, stdout = [], stderr = msg, return_code = - 1\<rparr>)
         in (Inr result, s\<lparr>world := w', log := log s @ [Ran full_command result]\<rparr>)))"

section \<open>iis\_tool.py\<close>

definition stop_site ::
  "'w env \<Rightarrow> SSHExecutor \<Rightarrow> string \<Rightarrow> 'w sys \<Rightarrow> (py_exn + cmd_result) \<times> 'w sys" where
  "stop_site E ex site_name s = execute_command E ex (AppcmdStop site_name) 60 False s"

definition start_site ::
  "'w env \<Rightarrow> SSHExecutor \<Rightarrow> string \<Rightarrow> 'w sys \<Rightarrow> (py_exn + cmd_result) \<times> 'w sys" where
  "start_site E ex site_name s = execute_command E ex (AppcmdStart site_name) 60 False s"

definition get_site_state ::
  "'w env \<Rightarrow> SSHExecutor \<Rightarrow> string \<Rightarrow> 'w sys \<Rightarrow> (py_exn + string option) \<times> 'w sys" where
  "get_site_state E ex site_name s =
     (case execute_command E ex (GetWebsiteState site_name) 60 True s of
        (Inl e, s') \<Rightarrow> (Inl e, s')
      | (Inr result, s') \<Rightarrow>
          (Inr (if cmd_result.success result then Some (strip (stdout result)) else None), s'))"

text \<open>
  What the script sent by \<open>get_site_state\<close> prints on a host whose sites and their
  states are \<open>sites\<close>: the state when \<open>Get-Website\<close> finds the site, the text
  \<open>NotFound\<close> from the \<open>else\<close> branch when it does not. The script ends normally in
  both cases.
\<close>

definition get_website_script :: "(string \<rightharpoonup> string) \<Rightarrow> string \<Rightarrow> exec_outcome" where
  "get_website_script sites site_name =
     Completed (case sites site_name of Some st \<Rightarrow> st | None \<Rightarrow> ''NotFound'') [] 0"

definition delete_site_content ::
  "'w env \<Rightarrow> SSHExecutor \<Rightarrow> string \<Rightarrow> bool \<Rightarrow> 'w sys \<Rightarrow> (py_exn + cmd_result) \<times> 'w sys" where
  "delete_site_content E ex site_path keep_root s =
     execute_command E ex
       (if keep_root then RemoveContents site_path else RemoveFolder site_path) 60 True s"

text \<open>\<open>str\<close> of an integer, for the messages that interpolate one.\<close>

definition digit_char :: "nat \<Rightarrow> char" where
  "digit_char d = ''0123456789'' ! d"

fun str_nat :: "nat \<Rightarrow> string" where
  "str_nat n =
     (if n < 10 then [digit_char n]
      else str_nat (n div 10) @ [digit_char (n mod 10)])"

declare str_nat.simps [simp del]

definition str_int :: "int \<Rightarrow> string" where
  "str_int i = (if i < 0 then CHR ''-'' # str_nat (nat (- i)) else str_nat (nat i))"

text \<open>The dictionary \<open>copy_files\<close> returns: the keys of a command result and \<open>message\<close>.\<close>

record copy_result = cmd_result +
  message :: string

definition copy_files ::
  "'w env \<Rightarrow> SSHExecutor \<Rightarrow> string \<Rightarrow> string \<Rightarrow> 'w sys \<Rightarrow> (py_exn + copy_result) \<times> 'w sys" where
  "copy_files E ex source_path destination_path s =
     (case execute_command E ex (Robocopy source_path destination_path) 60 False s of
        (Inl e, s') \<Rightarrow> (Inl e, s')
      | (Inr result, s') \<Rightarrow>
          (Inr (if return_code result \<in> set [0, 1, 2]
                then \<lparr>cmd_result.success = True,
                      stdout = stdout result,
                      stderr = stderr result,
                      return_code = return_code result,
                      message = ''Files copied (robocopy exit code: ''
                                  @ str_int (return_code result) @ '')''\<rparr>
                else \<lparr>cmd_result.success = False,
                      stdout = stdout result,
                      stderr = stderr result,
                      return_code = return_code result,
                      message = ''Copy failed: '' @ stderr result\<rparr>), s'))"

section \<open>backup\_tool.py\<close>

datatype BackupType = ZIP | FOLDER | UNKNOWN

datatype RollbackMode = ZIP | FOLDER | NONE

fun mode_value :: "RollbackMode \<Rightarrow> string" where
  "mode_value RollbackMode.ZIP = ''zip''"
| "mode_value RollbackMode.FOLDER = ''folder''"
| "mode_value RollbackMode.NONE = ''none''"

record BackupInfo =
  path :: string
  type :: BackupType
  name :: string
  timestamp :: datetime

text \<open>The dictionary \<open>detect_backup_type\<close> returns.\<close>

record detection =
  type :: RollbackMode
  zip_count :: int
  backup_info :: "BackupInfo option"
  message :: string

text \<open>\<open>self.temp_folder\<close>; the executor a manager holds is the one it was built with.\<close>

record BackupManager =
  temp_folder :: "string option"

fun split_on :: "char \<Rightarrow> string \<Rightarrow> string list" where
  "split_on sep [] = [[]]"
| "split_on sep (c # cs) =
     (if c = sep then [] # split_on sep cs
      else (case split_on sep cs of
              p # ps \<Rightarrow> (c # p) # ps
            | [] \<Rightarrow> [[c]]))"

definition backslash :: char where
  "backslash = CHR 0x5C"

text \<open>
  \<open>_get_zip_info\<close>. In the source, the second line of this command's f-string writes an
  escaped backslash before the quote that should end the format argument, which ends
  the Python literal there; the intended text asks for the archive's name and its last
  write time, separated by a bar. What the host answers is read as below.
\<close>

definition get_zip_info ::
  "'w env \<Rightarrow> SSHExecutor \<Rightarrow> string \<Rightarrow> 'w sys \<Rightarrow> (py_exn + BackupInfo) \<times> 'w sys" where
  "get_zip_info E ex backup_path s =
     (case execute_command E ex (ZipInfo backup_path) 60 True s of
        (Inl e, s') \<Rightarrow> (Inl e, s')
      | (Inr result, s') \<Rightarrow>
          (let fallback = \<lparr>path = backup_path, BackupInfo.type = BackupType.ZIP,
                            name = ''backup.zip'', timestamp = now E (world s')\<rparr>;
               parts = split_on CHR ''|'' (stdout result)
           in (Inr (if cmd_result.success result \<and> stdout result \<noteq> [] \<and> 2 \<le> length parts
                    then (case strptime E (strip (parts ! 1)) of
                            Some t \<Rightarrow> \<lparr>path = backup_path, BackupInfo.type = BackupType.ZIP,
                                       name = strip (parts ! 0), timestamp = t\<rparr>
                          | None \<Rightarrow> fallback)
                    else fallback), s')))"

definition get_folder_info ::
  "'w env \<Rightarrow> SSHExecutor \<Rightarrow> string \<Rightarrow> 'w sys \<Rightarrow> (py_exn + BackupInfo) \<times> 'w sys" where
  "get_folder_info E ex backup_path s =
     (let folder_name =
            path_basename E (rev (dropWhile (\<lambda>c. c = backslash) (rev backup_path)))
      in case execute_command E ex (FolderInfo backup_path) 60 True s of
           (Inl e, s') \<Rightarrow> (Inl e, s')
         | (Inr result, s') \<Rightarrow>
             (let t0 = now E (world s');
                  t = (if cmd_result.success result \<and> stdout result \<noteq> []
                       then (case strptime E (strip (stdout result)) of
                               Some t1 \<Rightarrow> t1
                             | None \<Rightarrow> t0)
                       else t0)
              in (Inr \<lparr>path = backup_path, BackupInfo.type = BackupType.FOLDER,
                       name = folder_name, timestamp = t\<rparr>, s')))"

definition detect_backup_type ::
  "'w env \<Rightarrow> SSHExecutor \<Rightarrow> string \<Rightarrow> 'w sys \<Rightarrow> (py_exn + detection) \<times> 'w sys" where
  "detect_backup_type E ex backup_path s =
     (case execute_command E ex (CountZips backup_path) 60 True s of
        (Inl e, s1) \<Rightarrow> (Inl e, s1)
      | (Inr result, s1) \<Rightarrow>
          if \<not> cmd_result.success result
          then (Inr \<lparr>detection.type = RollbackMode.NONE, zip_count = - 1,
                     backup_info = None,
                     message = ''Failed to check backup: '' @ stderr result\<rparr>, s1)
          else
            (let zip_count = (case py_int (strip (stdout result)) of
                                Some n \<Rightarrow> n
                              | None \<Rightarrow> 0)
             in if zip_count = 1
                then (case get_zip_info E ex backup_path s1 of
                        (Inl e, s2) \<Rightarrow> (Inl e, s2)
                      | (Inr zip_info, s2) \<Rightarrow>
                          (Inr \<lparr>detection.type = RollbackMode.ZIP, zip_count = 1,
                                backup_info = Some zip_info,
                                message = ''ZIP mode detected (1 ZIP file found)''\<rparr>, s2))
                else if 1 < zip_count
                then (Inr \<lparr>detection.type = RollbackMode.NONE, zip_count = zip_count,
                           backup_info = None,
                           message = ''Abort: '' @ str_int zip_count
                                       @ '' ZIP files found (expected 1)''\<rparr>, s1)
                else (case get_folder_info E ex backup_path s1 of
                        (Inl e, s2) \<Rightarrow> (Inl e, s2)
                      | (Inr folder_info, s2) \<Rightarrow>
                          (Inr \<lparr>detection.type = RollbackMode.FOLDER, zip_count = 0,
                                backup_info = Some folder_info,
                                message = ''Folder mode detected (no ZIP files)''\<rparr>, s2))))"

text \<open>
  The command text of \<open>create_temp_folder\<close>. Its f-string interpolates \<open>{base_path}\<close>
  once and \<open>{basePath}\<close> once; no name \<open>basePath\<close> is bound in the function or the
  module, so evaluating the f-string raises \<open>NameError\<close> and no command text results.
\<close>

definition temp_folder_command :: "string \<Rightarrow> string \<Rightarrow> py_exn + remote_cmd" where
  "temp_folder_command base_path tf =
     Inl (NameError ''name 'basePath' is not defined'')"

definition create_temp_folder ::
  "'w env \<Rightarrow> SSHExecutor \<Rightarrow> BackupManager \<Rightarrow> string \<Rightarrow> 'w sys
     \<Rightarrow> (py_exn + string) \<times> BackupManager \<times> 'w sys" where
  "create_temp_folder E ex bm base_path s =
     (let tstamp = strftime E (now E (world s));
          tf = path_join E base_path (''Rollback_'' @ tstamp)
      in case temp_folder_command base_path tf of
           Inl e \<Rightarrow> (Inl e, bm, s)
         | Inr command \<Rightarrow>
             (case execute_command E ex command 60 True s of
                (Inl e, s') \<Rightarrow> (Inl e, bm, s')
              | (Inr result, s') \<Rightarrow>
                  if cmd_result.success result
                  then (Inr tf, bm\<lparr>temp_folder := Some tf\<rparr>, s')
                  else (Inl (RuntimeError (''Failed to create temp folder: ''
                                             @ stderr result)), bm, s')))"

definition default_temp_base :: string where
  "default_temp_base = ''E:'' @ [backslash] @ ''Temp''"

definition extract_zip ::
  "'w env \<Rightarrow> SSHExecutor \<Rightarrow> string \<Rightarrow> string \<Rightarrow> 'w sys \<Rightarrow> (py_exn + cmd_result) \<times> 'w sys" where
  "extract_zip E ex zip_path destination s =
     execute_command E ex (ExpandArchive zip_path destination) 60 True s"

text \<open>The dictionaries with \<open>success\<close> and \<open>message\<close>, and with \<open>backup_path\<close> added.\<close>

record outcome =
  success :: bool
  message :: string

record preventive_result = outcome +
  backup_path :: "string option"

definition create_preventive_backup ::
  "'w env \<Rightarrow> SSHExecutor \<Rightarrow> string \<Rightarrow> string \<Rightarrow> string \<Rightarrow> 'w sys
     \<Rightarrow> (py_exn + preventive_result) \<times> 'w sys" where
  "create_preventive_backup E ex site_path backup_base_path site_name s =
     (let tstamp = strftime E (now E (world s));
          bp = path_join E backup_base_path (''PreRollback_'' @ tstamp)
      in case execute_command E ex (PreventiveCopy site_path bp) 60 True s of
           (Inl e, s') \<Rightarrow> (Inl e, s')
         | (Inr result, s') \<Rightarrow>
             (Inr (if cmd_result.success result
                   then \<lparr>outcome.success = True,
                         outcome.message = ''Preventive backup created: '' @ bp,
                         backup_path = Some bp\<rparr>
                   else \<lparr>outcome.success = False,
                         outcome.message = ''Failed to create backup: '' @ stderr result,
                         backup_path = None\<rparr>), s'))"

definition cleanup_temp_folder ::
  "'w env \<Rightarrow> SSHExecutor \<Rightarrow> BackupManager \<Rightarrow> 'w sys
     \<Rightarrow> (py_exn + outcome) \<times> BackupManager \<times> 'w sys" where
  "cleanup_temp_folder E ex bm s =
     (if \<not> truthy (temp_folder bm)
      then (Inr \<lparr>outcome.success = True,
                 outcome.message = ''No temp folder to clean up''\<rparr>, bm, s)
      else
        (case execute_command E ex (RemoveTemp (the (temp_folder bm))) 60 True s of
           (Inl e, s') \<Rightarrow> (Inl e, bm, s')
         | (Inr result, s') \<Rightarrow>
             if cmd_result.success result
             then (Inr \<lparr>outcome.success = True,
                        outcome.message = ''Cleaned up temp folder: None''\<rparr>,
                   bm\<lparr>temp_folder := None\<rparr>, s')
             else (Inr \<lparr>outcome.success = False,
                        outcome.message = ''Failed to clean up: '' @ stderr result\<rparr>,
                   bm, s')))"

section \<open>developer\_agent.py\<close>

record RollbackConfig =
  site_name :: string
  site_path :: string
  backup_path :: string
  ssh_config :: SSHConfig

text \<open>
  \<open>preventive_backup_path\<close> is declared \<open>str\<close> but receives whatever the preventive
  backup's dictionary holds under \<open>backup_path\<close>, which is \<open>None\<close> after a failed
  backup. The wall-clock \<open>duration_seconds\<close> is left out.
\<close>

record RollbackResult =
  success :: bool
  mode :: string
  backup_path :: string
  preventive_backup_path :: "string option"
  temp_folder :: string
  error :: string

text \<open>The \<open>IISManager\<close> has no state of its own; like the \<open>BackupManager\<close> it works
  through the executor it was built with, the one in \<open>ssh\<close>.\<close>

record DeveloperAgent =
  ssh :: "SSHExecutor option"
  backup :: "BackupManager option"

text \<open>Which \<open>return\<close> statement of \<open>execute_rollback\<close> produced the result.\<close>

datatype exit_path =
    ConnectAbort
  | ClassifyAbort
  | ExtractAbort
  | CopyAbort
  | ExceptionAbort py_exn
  | Finished

text \<open>\<open>RollbackResult(success=False, error=msg)\<close>, every other field at its default.\<close>

definition failure :: "string \<Rightarrow> RollbackResult" where
  "failure msg =
     \<lparr>success = False, mode = [], backup_path = [], preventive_backup_path = Some [],
      temp_folder = [], error = msg\<rparr>"

definition connect_ssh ::
  "'w env \<Rightarrow> SSHConfig \<Rightarrow> DeveloperAgent \<Rightarrow> 'w sys \<Rightarrow> bool \<times> DeveloperAgent \<times> 'w sys" where
  "connect_ssh E cfg ag s =
     (case new_executor E cfg of
        Inl e \<Rightarrow> (False, ag, s)
      | Inr ex0 \<Rightarrow>
          (case connect E ex0 s of
             (Inl e, ex1, s') \<Rightarrow> (False, ag\<lparr>ssh := Some ex1\<rparr>, s')
           | (Inr b, ex1, s') \<Rightarrow>
               (True, ag\<lparr>ssh := Some ex1,
                         backup := Some \<lparr>BackupManager.temp_folder = None\<rparr>\<rparr>, s')))"

definition disconnect_ssh :: "DeveloperAgent \<Rightarrow> 'w sys \<Rightarrow> DeveloperAgent \<times> 'w sys" where
  "disconnect_ssh ag s =
     (case ssh ag of
        None \<Rightarrow> (ag, s)
      | Some ex \<Rightarrow> (let (ex', s') = disconnect ex s in (ag\<lparr>ssh := Some ex'\<rparr>, s')))"

text \<open>Steps 8 and 9 and the final status.\<close>

definition finish_run ::
  "'w env \<Rightarrow> SSHExecutor \<Rightarrow> BackupManager \<Rightarrow> RollbackConfig \<Rightarrow> string \<Rightarrow> string
     \<Rightarrow> preventive_result \<Rightarrow> string list \<Rightarrow> 'w sys
     \<Rightarrow> (py_exn + RollbackResult \<times> exit_path) \<times> BackupManager \<times> 'w sys" where
  "finish_run E ex bm cfg md tf prev errors s =
     (case start_site E ex (site_name cfg) s of
        (Inl e, s1) \<Rightarrow> (Inl e, bm, s1)
      | (Inr start_result, s1) \<Rightarrow>
          (let errors1 =
                 (if \<not> cmd_result.success start_result
                  then errors @ [''Failed to start site: '' @ stderr start_result]
                  else errors)
           in case (if tf \<noteq> []
                    then (case cleanup_temp_folder E ex bm s1 of
                            (Inl e, bm2, s2) \<Rightarrow> (Some e, bm2, s2)
                          | (Inr cleanup_result, bm2, s2) \<Rightarrow> (None, bm2, s2))
                    else (None, bm, s1)) of
                (Some e, bm2, s2) \<Rightarrow> (Inl e, bm2, s2)
              | (None, bm2, s2) \<Rightarrow>
                  (Inr (\<lparr>success = True, mode = md,
                         backup_path = RollbackConfig.backup_path cfg,
                         preventive_backup_path = preventive_result.backup_path prev,
                         temp_folder = tf,
                         error = (if errors1 \<noteq> []
                                  then ''Completed with errors: '' @ join_with ''; '' errors1
                                  else [])\<rparr>, Finished), bm2, s2)))"

text \<open>Steps 4 to 7.\<close>

definition restore_steps ::
  "'w env \<Rightarrow> SSHExecutor \<Rightarrow> BackupManager \<Rightarrow> RollbackConfig \<Rightarrow> string \<Rightarrow> string \<Rightarrow> string
     \<Rightarrow> 'w sys \<Rightarrow> (py_exn + RollbackResult \<times> exit_path) \<times> BackupManager \<times> 'w sys" where
  "restore_steps E ex bm cfg md backup_source tf s =
     (let backup_base = path_dirname E (RollbackConfig.backup_path cfg)
      in case create_preventive_backup E ex (site_path cfg) backup_base (site_name cfg) s of
           (Inl e, s1) \<Rightarrow> (Inl e, bm, s1)
         | (Inr prev, s1) \<Rightarrow>
             (case stop_site E ex (site_name cfg) s1 of
                (Inl e, s2) \<Rightarrow> (Inl e, bm, s2)
              | (Inr stop_result, s2) \<Rightarrow>
                  (let errors1 =
                         (if \<not> cmd_result.success stop_result
                          then [''Failed to stop site: '' @ stderr stop_result]
                          else [])
                   in case delete_site_content E ex (site_path cfg) True s2 of
                        (Inl e, s3) \<Rightarrow> (Inl e, bm, s3)
                      | (Inr delete_result, s3) \<Rightarrow>
                          (let errors2 =
                                 (if \<not> cmd_result.success delete_result
                                  then errors1 @ [''Failed to delete content: ''
                                                    @ stderr delete_result]
                                  else errors1)
                           in case copy_files E ex backup_source (site_path cfg) s3 of
                                (Inl e, s4) \<Rightarrow> (Inl e, bm, s4)
                              | (Inr copy_res, s4) \<Rightarrow>
                                  if \<not> cmd_result.success copy_res
                                  then (Inr (\<lparr>success = False, mode = md,
                                              backup_path = RollbackConfig.backup_path cfg,
                                              preventive_backup_path =
                                                preventive_result.backup_path prev,
                                              temp_folder = tf,
                                              error = ''Failed to copy files: ''
                                                        @ stderr copy_res\<rparr>, CopyAbort),
                                        bm, s4)
                                  else finish_run E ex bm cfg md tf prev errors2 s4))))"

text \<open>Step 3, taken when the detection is \<open>ZIP\<close>.\<close>

definition stage_zip ::
  "'w env \<Rightarrow> SSHExecutor \<Rightarrow> BackupManager \<Rightarrow> RollbackConfig \<Rightarrow> string \<Rightarrow> detection
     \<Rightarrow> 'w sys \<Rightarrow> (py_exn + RollbackResult \<times> exit_path) \<times> BackupManager \<times> 'w sys" where
  "stage_zip E ex bm cfg md d s =
     (case create_temp_folder E ex bm default_temp_base s of
        (Inl e, bm1, s1) \<Rightarrow> (Inl e, bm1, s1)
      | (Inr tf, bm1, s1) \<Rightarrow>
          (case backup_info d of
             None \<Rightarrow>
               (Inl (AttributeError ''NoneType object has no attribute name''),
                bm1, s1)
           | Some info \<Rightarrow>
               (let zip_path = path_join E (RollbackConfig.backup_path cfg) (name info)
                in case extract_zip E ex zip_path tf s1 of
                     (Inl e, s2) \<Rightarrow> (Inl e, bm1, s2)
                   | (Inr extract_result, s2) \<Rightarrow>
                       if \<not> cmd_result.success extract_result
                       then (Inr ((failure (''Failed to extract ZIP: ''
                                              @ stderr extract_result))
                                    \<lparr>mode := md, temp_folder := tf\<rparr>, ExtractAbort),
                             bm1, s2)
                       else restore_steps E ex bm1 cfg md tf tf s2)))"

text \<open>The body of the \<open>try\<close> block: \<open>Inl\<close> is an exception on its way to the handler.\<close>

definition rollback_try ::
  "'w env \<Rightarrow> RollbackConfig \<Rightarrow> DeveloperAgent \<Rightarrow> 'w sys
     \<Rightarrow> (py_exn + RollbackResult \<times> exit_path) \<times> DeveloperAgent \<times> 'w sys" where
  "rollback_try E cfg ag s =
     (case connect_ssh E (ssh_config cfg) ag s of
        (ok, ag1, s1) \<Rightarrow>
          if \<not> ok
          then (Inr (failure ''Failed to establish SSH connection'', ConnectAbort), ag1, s1)
          else
            (case (ssh ag1, backup ag1) of
               (Some ex, Some bm) \<Rightarrow>
                 (case detect_backup_type E ex (RollbackConfig.backup_path cfg) s1 of
                    (Inl e, s2) \<Rightarrow> (Inl e, ag1, s2)
                  | (Inr d, s2) \<Rightarrow>
                      if detection.type d = RollbackMode.NONE
                      then (Inr (failure (detection.message d), ClassifyAbort), ag1, s2)
                      else
                        (let md = mode_value (detection.type d)
                         in case (if detection.type d = RollbackMode.ZIP
                                  then stage_zip E ex bm cfg md d s2
                                  else restore_steps E ex bm cfg md
                                         (RollbackConfig.backup_path cfg) [] s2) of
                              (r, bm', s3) \<Rightarrow> (r, ag1\<lparr>backup := Some bm'\<rparr>, s3)))
             | _ \<Rightarrow>
                 (Inl (AttributeError
                         ''NoneType object has no attribute detect_backup_type''),
                  ag1, s1)))"

text \<open>The handler turns an exception into a failed result; \<open>finally\<close> disconnects.\<close>

definition execute_rollback ::
  "'w env \<Rightarrow> RollbackConfig \<Rightarrow> DeveloperAgent \<Rightarrow> 'w sys
     \<Rightarrow> (RollbackResult \<times> exit_path) \<times> DeveloperAgent \<times> 'w sys" where
  "execute_rollback E cfg ag s =
     (case rollback_try E cfg ag s of
        (r, ag1, s1) \<Rightarrow>
          (let res = (case r of
                        Inl e \<Rightarrow> (failure (str_exn e), ExceptionAbort e)
                      | Inr x \<Rightarrow> x)
           in case disconnect_ssh ag1 s1 of
                (ag2, s2) \<Rightarrow> (res, ag2, s2)))"

section \<open>Observations on the log\<close>

text \<open>The command lines sent during a run, in order.\<close>

definition commands :: "event list \<Rightarrow> shell_line list" where
  "commands evs = concat (map (\<lambda>e. case e of Ran l r \<Rightarrow> [l] | _ \<Rightarrow> []) evs)"

text \<open>The steps that change the site: stopping it, deleting its content, copying
  the backup over it.\<close>

fun destructive :: "shell_line \<Rightarrow> bool" where
  "destructive (Direct (AppcmdStop n)) = True"
| "destructive (PowerShell (RemoveContents p)) = True"
| "destructive (PowerShell (RemoveFolder p)) = True"
| "destructive (Direct (Robocopy a b)) = True"
| "destructive l = False"

text \<open>The error summary of a finished run, and the test each step applies to the
  result of its command: the bulk copy goes by the exit code, every other step by
  \<open>success\<close>.\<close>

definition summary :: "string list \<Rightarrow> string" where
  "summary errs =
     (if errs \<noteq> [] then ''Completed with errors: '' @ join_with ''; '' errs else [])"


section \<open>Example surroundings\<close>

text \<open>
  A host that answers every connection attempt with \<open>dial\<close> and every command line
  with \<open>reply\<close>; the local side joins paths with a slash and has a key file wherever
  it is asked for one.
\<close>

definition scripted_env :: "conn_exn option \<Rightarrow> (shell_line \<Rightarrow> exec_outcome) \<Rightarrow> unit env" where
  "scripted_env dial reply =
     \<lparr>path_exists = (\<lambda>p. True),
      expanduser = (\<lambda>p. p),
      path_join = (\<lambda>a b. a @ ''/'' @ b),
      path_dirname = (\<lambda>p. rev (drop 1 (dropWhile (\<lambda>c. c \<noteq> CHR ''/'') (rev p)))),
      path_basename = (\<lambda>p. rev (takeWhile (\<lambda>c. c \<noteq> CHR ''/'') (rev p))),
      now = (\<lambda>w. 0),
      strftime = (\<lambda>t. ''20240101_000000''),
      strptime = (\<lambda>t. None),
      client_connect = (\<lambda>w p. (dial, w)),
      client_exec = (\<lambda>w line t. (reply line, w))\<rparr>"

text \<open>Every command succeeds; the archive count prints \<open>count_text\<close> and the bulk copy
  ends with exit code 1 (files copied).\<close>

definition ok_host :: "string \<Rightarrow> shell_line \<Rightarrow> exec_outcome" where
  "ok_host count_text line =
     (case line of
        PowerShell (CountZips p) \<Rightarrow> Completed count_text [] 0
      | Direct (Robocopy a b) \<Rightarrow> Completed [] [] 1
      | _ \<Rightarrow> Completed [] [] 0)"

text \<open>A host running IIS with the sites \<open>sites\<close>.\<close>

definition iis_host :: "(string \<rightharpoonup> string) \<Rightarrow> shell_line \<Rightarrow> exec_outcome" where
  "iis_host sites line =
     (case line of
        PowerShell (GetWebsiteState n) \<Rightarrow> get_website_script sites n
      | _ \<Rightarrow> Completed [] [] 0)"

definition demo_config :: SSHConfig where
  "demo_config = \<lparr>host = ''10.0.0.5'', username = ''admin'', port = 22,
                   password = Some ''secret'', key_path = None, timeout = 30\<rparr>"

definition demo_executor :: SSHExecutor where
  "demo_executor = \<lparr>config = demo_config, client = True, connected = True\<rparr>"

definition demo_rollback :: RollbackConfig where
  "demo_rollback =
     \<lparr>site_name = ''MyWebsite'', site_path = ''E:/Sites/MyWebsite'',
      backup_path = ''E:/Backups/MyWebsite/Backup20240101'', ssh_config = demo_config\<rparr>"

definition fresh_agent :: DeveloperAgent where
  "fresh_agent = \<lparr>ssh = None, backup = None\<rparr>"

text \<open>A host on which the commands chosen by \<open>fails\<close> end with exit code 16 and
  everything else is as on \<open>ok_host\<close> without archives; a host holding one archive.\<close>

definition failing_host :: "(remote_cmd \<Rightarrow> bool) \<Rightarrow> shell_line \<Rightarrow> exec_outcome" where
  "failing_host fails line =
     (if fails (case line of PowerShell c \<Rightarrow> c | Direct c \<Rightarrow> c)
      then Completed [] ''Access is denied.'' 16
      else ok_host ''0'' line)"

definition archive_host :: "shell_line \<Rightarrow> exec_outcome" where
  "archive_host line =
     (case line of
        PowerShell (CountZips p) \<Rightarrow> Completed ''1'' [] 0
      | PowerShell (ZipInfo p) \<Rightarrow> Completed ''site_20240101.zip|2024-01-01 10:00:00'' [] 0
      | Direct (Robocopy a b) \<Rightarrow> Completed [] [] 1
      | _ \<Rightarrow> Completed [] [] 0)"

definition is_preventive_copy :: "remote_cmd \<Rightarrow> bool" where
  "is_preventive_copy c = (case c of PreventiveCopy a b \<Rightarrow> True | _ \<Rightarrow> False)"

definition is_stop :: "remote_cmd \<Rightarrow> bool" where
  "is_stop c = (case c of AppcmdStop n \<Rightarrow> True | _ \<Rightarrow> False)"

definition is_restore_copy :: "remote_cmd \<Rightarrow> bool" where
  "is_restore_copy c = (case c of Robocopy a b \<Rightarrow> True | _ \<Rightarrow> False)"

text \<open>The results and the log these hosts produce for \<open>demo_rollback\<close>.\<close>

definition ok_result :: "string \<Rightarrow> cmd_result" where
  "ok_result out = \<lparr>cmd_result.success = True, stdout = out, stderr = [], return_code = 0\<rparr>"

definition denied :: cmd_result where
  "denied = \<lparr>cmd_result.success = False, stdout = [], stderr = ''Access is denied.'',
             return_code = 16\<rparr>"

definition copied :: cmd_result where
  "copied = \<lparr>cmd_result.success = False, stdout = [], stderr = [], return_code = 1\<rparr>"

definition done_agent :: DeveloperAgent where
  "done_agent = \<lparr>ssh = Some (demo_executor\<lparr>connected := False\<rparr>),
                  backup = Some \<lparr>BackupManager.temp_folder = None\<rparr>\<rparr>"

definition demo_dial :: event where
  "demo_dial = Dial (ConnectParams ''10.0.0.5'' 22 ''admin'' 30 (Some ''secret'') None)"

definition demo_preventive :: shell_line where
  "demo_preventive =
     PowerShell (PreventiveCopy ''E:/Sites/MyWebsite''
                   ''E:/Backups/MyWebsite/PreRollback_20240101_000000'')"

definition demo_folder_log ::
  "cmd_result \<Rightarrow> cmd_result \<Rightarrow> cmd_result \<Rightarrow> event list \<Rightarrow> event list" where
  "demo_folder_log pr sr cr tail =
     [demo_dial,
      Ran (PowerShell (CountZips ''E:/Backups/MyWebsite/Backup20240101'')) (ok_result ''0''),
      Ran (PowerShell (FolderInfo ''E:/Backups/MyWebsite/Backup20240101'')) (ok_result []),
      Ran demo_preventive pr,
      Ran (Direct (AppcmdStop ''MyWebsite'')) sr,
      Ran (PowerShell (RemoveContents ''E:/Sites/MyWebsite'')) (ok_result []),
      Ran (Direct (Robocopy ''E:/Backups/MyWebsite/Backup20240101'' ''E:/Sites/MyWebsite'')) cr]
     @ tail @ [Close]"

section \<open>Remote Executor\<close>

lemma execute_command_connected:
  "connected ex \<Longrightarrow>
   \<exists>r s'. execute_command E ex c t p s = (Inr r, s')
          \<and> log s' = log s @ [Ran (if p then PowerShell c else Direct c) r]"
  by (simp add: execute_command_def Let_def split: prod.splits)

lemma execute_command_Inr_connected:
  "execute_command E ex c t p s = (Inr r, s') \<Longrightarrow> connected ex"
  by (simp add: execute_command_def split: if_splits)

text \<open>
  Claim C6. \<open>execute_command\<close> raises exactly when the executor is not connected. On a
  connected executor it returns a result whatever happens: when the remote execution
  raises, the result has \<open>success = False\<close>, the exception text as \<open>stderr\<close>, and
  \<open>return_code = -1\<close>.
\<close>

theorem execute_command_raises_iff_not_connected:
  "((\<exists>e. fst (execute_command E ex c t p s) = Inl e) \<longleftrightarrow> \<not> connected ex)
   \<and> (connected ex \<longrightarrow>
        fst (client_exec E (world s) (if p then PowerShell c else Direct c) t) = Raised msg \<longrightarrow>
        fst (execute_command E ex c t p s)
          = Inr \<lparr>cmd_result.success = False, stdout = [], stderr = msg, return_code = - 1\<rparr>)"
  by (auto simp: execute_command_def Let_def split: prod.splits exec_outcome.splits)

theorem execute_command_raises_iff_not_connected_witness:
  "connected demo_executor
   \<and> fst (client_exec (scripted_env None (\<lambda>l. Raised ''Timeout opening channel.''))
            (world (init_sys ()))
            (if False then PowerShell (AppcmdStop ''MyWebsite'')
             else Direct (AppcmdStop ''MyWebsite'')) 60)
       = Raised ''Timeout opening channel.''
   \<and> fst (execute_command (scripted_env None (\<lambda>l. Raised ''Timeout opening channel.''))
            demo_executor (AppcmdStop ''MyWebsite'') 60 False (init_sys ()))
       = Inr \<lparr>cmd_result.success = False, stdout = [],
              stderr = ''Timeout opening channel.'', return_code = - 1\<rparr>
   \<and> (\<exists>e. fst (execute_command (scripted_env None (ok_host ''0''))
                  (demo_executor\<lparr>connected := False\<rparr>) (AppcmdStop ''MyWebsite'') 60 False
                  (init_sys ()))
            = Inl e)"
proof -
  let ?E = "scripted_env None (\<lambda>l. Raised ''Timeout opening channel.'')"
  have c: "connected demo_executor" by (simp add: demo_executor_def)
  have r: "fst (client_exec ?E (world (init_sys ()))
              (if False then PowerShell (AppcmdStop ''MyWebsite'')
               else Direct (AppcmdStop ''MyWebsite'')) 60)
           = Raised ''Timeout opening channel.''"
    by (simp add: scripted_env_def)
  have n: "\<not> connected (demo_executor\<lparr>connected := False\<rparr>)" by simp
  show ?thesis
    using c r n
      execute_command_raises_iff_not_connected
        [of ?E demo_executor "AppcmdStop ''MyWebsite''" 60 False "init_sys ()"
            "''Timeout opening channel.''"]
      execute_command_raises_iff_not_connected
        [of "scripted_env None (ok_host ''0'')" "demo_executor\<lparr>connected := False\<rparr>"
            "AppcmdStop ''MyWebsite''" 60 False "init_sys ()" "[]"]
    by simp
qed

section \<open>Site Controller\<close>

text \<open>
  Claim C7. On a connected executor \<open>copy_files\<close> always returns a result, and that
  result has \<open>success = True\<close> exactly when the return code is 0, 1 or 2; a return code
  of 8 or more is reported as failed. The return code is the exit status of the copy
  tool whenever the remote execution completes.
\<close>

theorem copy_files_success_iff_exit_code:
  "connected ex \<Longrightarrow>
   \<exists>r s'. copy_files E ex src dst s = (Inr r, s')
         \<and> (cmd_result.success r \<longleftrightarrow> return_code r \<in> {0, 1, 2})
         \<and> (8 \<le> return_code r \<longrightarrow> \<not> cmd_result.success r)
         \<and> (\<forall>out err code. fst (client_exec E (world s) (Direct (Robocopy src dst)) 60)
                               = Completed out err code \<longrightarrow> return_code r = code)"
  by (auto simp: copy_files_def execute_command_def Let_def
           split: prod.splits exec_outcome.splits)

theorem copy_files_success_iff_exit_code_witness:
  "connected demo_executor
   \<and> (\<exists>r s'. copy_files (scripted_env None (\<lambda>l. Completed [] [] 2)) demo_executor
                ''E:/Backups/B1'' ''E:/Sites/W'' (init_sys ()) = (Inr r, s')
            \<and> cmd_result.success r \<and> return_code r = 2)
   \<and> (\<exists>r s'. copy_files (scripted_env None (\<lambda>l. Completed [] ''ERROR 5'' 16)) demo_executor
                ''E:/Backups/B1'' ''E:/Sites/W'' (init_sys ()) = (Inr r, s')
            \<and> \<not> cmd_result.success r \<and> return_code r = 16)"
proof -
  have c: "connected demo_executor" by (simp add: demo_executor_def)
  show ?thesis
    using c
      copy_files_success_iff_exit_code
        [OF c, of "scripted_env None (\<lambda>l. Completed [] [] 2)" "''E:/Backups/B1''"
            "''E:/Sites/W''" "init_sys ()"]
      copy_files_success_iff_exit_code
        [OF c, of "scripted_env None (\<lambda>l. Completed [] ''ERROR 5'' 16)" "''E:/Backups/B1''"
            "''E:/Sites/W''" "init_sys ()"]
    by (auto simp: scripted_env_def)
qed

section \<open>Connecting\<close>

lemma commands_append [simp]: "commands (xs @ ys) = commands xs @ commands ys"
  by (simp add: commands_def)

lemma commands_simps [simp]:
  "commands [] = []"
  "commands (Ran l r # evs) = l # commands evs"
  "commands (Dial p # evs) = commands evs"
  "commands (Backoff k # evs) = commands evs"
  "commands (Close # evs) = commands evs"
  by (simp_all add: commands_def)

lemmas retry_unfold =
  connect_with_retry.simps [of _ _ "Suc 0"] connect_with_retry.simps [of _ _ "Suc (Suc 0)"]
  connect_with_retry.simps [of _ _ "Suc (Suc (Suc 0))"]

lemma connect_with_retry_commands:
  "connect_with_retry E cfg (Suc 0) s = (r, s') \<Longrightarrow> commands (log s') = commands (log s)"
  by (auto simp: retry_unfold Let_def split: prod.splits option.splits)

lemma connect_with_retry_gives_up:
  "connect_with_retry E cfg (Suc 0) s = (Some e, s') \<Longrightarrow>
   (\<exists>e0. e = RetryError e0)
   \<and> log s' = log s @ [Dial (connect_params_of E cfg), Backoff 1,
                       Dial (connect_params_of E cfg), Backoff 2,
                       Dial (connect_params_of E cfg)]"
  by (auto simp: retry_unfold Let_def split: prod.splits option.splits)

lemma connect_with_retry_succeeds:
  "connect_with_retry E cfg (Suc 0) s = (None, s') \<Longrightarrow>
   log s' = log s @ [Dial (connect_params_of E cfg)]
   \<or> log s' = log s @ [Dial (connect_params_of E cfg), Backoff 1,
                        Dial (connect_params_of E cfg)]
   \<or> log s' = log s @ [Dial (connect_params_of E cfg), Backoff 1,
                        Dial (connect_params_of E cfg), Backoff 2,
                        Dial (connect_params_of E cfg)]"
  by (auto simp: retry_unfold Let_def split: prod.splits option.splits)

lemma connect_with_retry_second_attempt:
  "connect_with_retry E cfg (Suc 0) s = (r, s') \<Longrightarrow>
   fst (client_connect E (world s) (connect_params_of E cfg)) = Some e \<Longrightarrow>
   prefix (log s @ [Dial (connect_params_of E cfg), Backoff 1,
                    Dial (connect_params_of E cfg)]) (log s')"
  by (auto simp: retry_unfold Let_def split: prod.splits option.splits)

text \<open>
  What the retry decorator makes of \<open>connect\<close> on an executor that is not connected:
  every failed attempt is retried, whatever the exception; after the third failure
  \<open>RetryError\<close> is raised and the executor stays not connected; an attempt that
  succeeds ends the retries.
\<close>

lemma connect_retries_every_failure:
  "\<not> connected ex \<Longrightarrow>
   (let p = connect_params_of E (config ex)
    in (case connect E ex s of
          (Inl e, ex', s') \<Rightarrow>
            (\<exists>e0. e = RetryError e0) \<and> \<not> connected ex'
            \<and> log s' = log s @ [Dial p, Backoff 1, Dial p, Backoff 2, Dial p]
        | (Inr b, ex', s') \<Rightarrow>
            b \<and> connected ex'
            \<and> (log s' = log s @ [Dial p]
                \<or> log s' = log s @ [Dial p, Backoff 1, Dial p]
                \<or> log s' = log s @ [Dial p, Backoff 1, Dial p, Backoff 2, Dial p]))
       \<and> (\<forall>e. fst (client_connect E (world s) p) = Some e
              \<longrightarrow> prefix (log s @ [Dial p, Backoff 1, Dial p])
                         (log (snd (snd (connect E ex s))))))"
proof -
  assume nc: "\<not> connected ex"
  obtain r s' where run: "connect_with_retry E (config ex) (Suc 0) s = (r, s')"
    by (cases "connect_with_retry E (config ex) (Suc 0) s") auto
  show ?thesis
  proof (cases r)
    case None
    with run nc connect_with_retry_succeeds [of E "config ex" s s']
      connect_with_retry_second_attempt [of E "config ex" s r s']
    show ?thesis by (auto simp: connect_def Let_def)
  next
    case (Some e)
    with run nc connect_with_retry_gives_up [of E "config ex" s e s']
      connect_with_retry_second_attempt [of E "config ex" s r s']
    show ?thesis by (auto simp: connect_def Let_def)
  qed
qed

text \<open>
  Claim C5 on the code. With a server rejecting the credentials, \<open>connect\<close> calls
  \<open>client.connect\<close> three times, sleeping after the first and the second rejection, and
  then raises \<open>RetryError\<close> instead of the authentication error at the first rejection.
\<close>

theorem connect_retries_authentication_failure:
  "connect (scripted_env (Some (AuthenticationException ''Authentication failed.'')) (ok_host ''0''))
       (demo_executor\<lparr>client := False, connected := False\<rparr>) (init_sys ())
   = (Inl (RetryError (AuthenticationException ''Authentication failed.'')),
      demo_executor\<lparr>client := True, connected := False\<rparr>,
      \<lparr>world = (),
       log = [Dial (ConnectParams ''10.0.0.5'' 22 ''admin'' 30 (Some ''secret'') None),
              Backoff 1,
              Dial (ConnectParams ''10.0.0.5'' 22 ''admin'' 30 (Some ''secret'') None),
              Backoff 2,
              Dial (ConnectParams ''10.0.0.5'' 22 ''admin'' 30 (Some ''secret'') None)]\<rparr>)"
  by (simp add: connect_def retry_unfold Let_def scripted_env_def demo_executor_def demo_config_def
        init_sys_def connect_params_of_def truthy_def)

text \<open>
  Claim C8 on the code. On a host with the single site \<open>Default Web Site\<close>, asking for
  the state of \<open>Ghost\<close> runs the script's \<open>else\<close> branch, the command succeeds, and
  \<open>get_site_state\<close> returns the text \<open>NotFound\<close> rather than \<open>None\<close>.
\<close>

theorem get_site_state_absent_site:
  "fst (get_site_state (scripted_env None (iis_host [''Default Web Site'' \<mapsto> ''Started'']))
          demo_executor ''Ghost'' (init_sys ()))
   = Inr (Some ''NotFound'')"
  by (simp add: get_site_state_def execute_command_def scripted_env_def iis_host_def
        get_website_script_def demo_executor_def init_sys_def Let_def
        strip_def lstrip_def rstrip_def py_isspace_def)

text \<open>
  Claim C10. When the archive-count command succeeds and its output is not an integer,
  \<open>detect_backup_type\<close> takes the count to be 0 and returns \<open>FOLDER\<close>, which is not the
  failure outcome \<open>NONE\<close>.
\<close>

theorem unparsable_count_is_folder:
  "execute_command E ex (CountZips p) 60 True s = (Inr r, s1) \<Longrightarrow>
   cmd_result.success r \<Longrightarrow>
   py_int (strip (stdout r)) = None \<Longrightarrow>
   \<exists>d s'. detect_backup_type E ex p s = (Inr d, s')
        \<and> detection.type d = RollbackMode.FOLDER \<and> zip_count d = 0
        \<and> detection.type d \<noteq> RollbackMode.NONE"
proof -
  assume a: "execute_command E ex (CountZips p) 60 True s = (Inr r, s1)"
    and b: "cmd_result.success r" and c: "py_int (strip (stdout r)) = None"
  from a have con: "connected ex" by (rule execute_command_Inr_connected)
  obtain r2 s2 where f: "execute_command E ex (FolderInfo p) 60 True s1 = (Inr r2, s2)"
    using execute_command_connected [OF con] by blast
  show ?thesis
    by (simp add: detect_backup_type_def a b c get_folder_info_def f Let_def)
qed

section \<open>The steps of a run on a connected executor\<close>

lemma in_commands: "Ran l r \<in> set evs \<Longrightarrow> l \<in> set (commands evs)"
  by (induction evs) (auto simp: commands_def)

lemma detect_connected:
  "connected ex \<Longrightarrow>
   \<exists>d s2 pre. detect_backup_type E ex p s = (Inr d, s2) \<and> log s2 = log s @ pre
     \<and> commands pre =
         (case detection.type d of
            RollbackMode.NONE \<Rightarrow> [PowerShell (CountZips p)]
          | RollbackMode.ZIP \<Rightarrow> [PowerShell (CountZips p), PowerShell (ZipInfo p)]
          | RollbackMode.FOLDER \<Rightarrow> [PowerShell (CountZips p), PowerShell (FolderInfo p)])"
  by (simp add: detect_backup_type_def get_zip_info_def get_folder_info_def
        execute_command_def Let_def split: prod.splits)

lemma stage_zip_raises:
  "stage_zip E ex bm cfg md d s = (Inl (NameError ''name 'basePath' is not defined''), bm, s)"
  by (simp add: stage_zip_def create_temp_folder_def temp_folder_command_def Let_def)

lemma connect_cases:
  "connect E ex s = (r, ex', s') \<Longrightarrow> \<not> connected ex \<Longrightarrow>
     commands (log s') = commands (log s)
   \<and> (case r of Inr b \<Rightarrow> connected ex' \<and> client ex' | Inl e \<Rightarrow> \<not> connected ex')"
  by (auto simp: connect_def Let_def split: option.splits prod.splits
           dest: connect_with_retry_commands)

lemma connect_ssh_cases:
  assumes run: "connect_ssh E c ag s = (ok, ag1, s1)"
  shows "commands (log s1) = commands (log s)
   \<and> (ok \<longrightarrow> (\<exists>ex. ssh ag1 = Some ex \<and> connected ex \<and> client ex)
             \<and> backup ag1 = Some \<lparr>BackupManager.temp_folder = None\<rparr>)
   \<and> (\<not> ok \<longrightarrow> (ssh ag1 = ssh ag \<and> s1 = s) \<or> (\<exists>ex. ssh ag1 = Some ex \<and> \<not> connected ex))"
proof (cases "new_executor E c")
  case (Inl e)
  with run show ?thesis by (auto simp: connect_ssh_def)
next
  case (Inr ex0)
  then have nc: "\<not> connected ex0"
    by (auto simp: new_executor_def split: option.splits)
  obtain r ex1 s' where c: "connect E ex0 s = (r, ex1, s')"
    by (cases "connect E ex0 s") auto
  from connect_cases [OF c nc] Inr c run show ?thesis
    by (cases r) (auto simp: connect_ssh_def)
qed

lemma stop_site_connected:
  "connected ex \<Longrightarrow>
   \<exists>sr s'. stop_site E ex n s = (Inr sr, s') \<and> log s' = log s @ [Ran (Direct (AppcmdStop n)) sr]"
  using execute_command_connected [of ex E "AppcmdStop n" 60 False s]
  by (simp add: stop_site_def)

lemma start_site_connected:
  "connected ex \<Longrightarrow>
   \<exists>tr s'. start_site E ex n s = (Inr tr, s') \<and> log s' = log s @ [Ran (Direct (AppcmdStart n)) tr]"
  using execute_command_connected [of ex E "AppcmdStart n" 60 False s]
  by (simp add: start_site_def)

lemma delete_site_content_connected:
  "connected ex \<Longrightarrow>
   \<exists>dr s'. delete_site_content E ex p True s = (Inr dr, s')
          \<and> log s' = log s @ [Ran (PowerShell (RemoveContents p)) dr]"
  using execute_command_connected [of ex E "RemoveContents p" 60 True s]
  by (simp add: delete_site_content_def)

lemma copy_files_connected:
  "connected ex \<Longrightarrow>
   \<exists>cr cres s'. copy_files E ex a b s = (Inr cres, s')
          \<and> log s' = log s @ [Ran (Direct (Robocopy a b)) cr]
          \<and> cmd_result.success cres = (return_code cr \<in> {0, 1, 2})
          \<and> stderr cres = stderr cr"
  using execute_command_connected [of ex E "Robocopy a b" 60 False s]
  by (auto simp: copy_files_def)

lemma create_preventive_backup_connected:
  assumes "connected ex"
  shows "\<exists>bp pr prev s'. create_preventive_backup E ex sp base n s = (Inr prev, s')
          \<and> log s' = log s @ [Ran (PowerShell (PreventiveCopy sp bp)) pr]
          \<and> preventive_result.backup_path prev = (if cmd_result.success pr then Some bp else None)"
proof -
  let ?bp = "path_join E base (''PreRollback_'' @ strftime E (now E (world s)))"
  obtain pr s' where 1: "execute_command E ex (PreventiveCopy sp ?bp) 60 True s = (Inr pr, s')"
    and 2: "log s' = log s @ [Ran (PowerShell (PreventiveCopy sp ?bp)) pr]"
    using execute_command_connected [OF assms, of E "PreventiveCopy sp ?bp" 60 True s] by auto
  show ?thesis
    apply (rule exI [of _ ?bp])
    apply (rule exI [of _ pr])
    using 1 2 apply (simp add: create_preventive_backup_def Let_def)
    done
qed

lemma finish_run_connected:
  assumes "connected ex"
  shows "\<exists>tr s'. finish_run E ex bm cfg md [] prev errors s =
           (Inr (\<lparr>success = True, mode = md,
                  backup_path = RollbackConfig.backup_path cfg,
                  preventive_backup_path = preventive_result.backup_path prev,
                  temp_folder = [],
                  error = summary (errors @ (if cmd_result.success tr then []
                                            else [''Failed to start site: '' @ stderr tr]))\<rparr>,
                 Finished), bm, s')
         \<and> log s' = log s @ [Ran (Direct (AppcmdStart (site_name cfg))) tr]"
proof -
  obtain tr s' where 1: "start_site E ex (site_name cfg) s = (Inr tr, s')"
    and 2: "log s' = log s @ [Ran (Direct (AppcmdStart (site_name cfg))) tr]"
    using start_site_connected [OF assms] by blast
  show ?thesis
    by (rule exI [of _ tr], rule exI [of _ s']) (simp add: finish_run_def 1 2 summary_def)
qed

lemma restore_steps_connected:
  assumes con: "connected ex"
  obtains bp pr sr dr cr tail res p s' where
    "restore_steps E ex bm cfg md src [] s = (Inr (res, p), bm, s')"
    "log s' = log s @ [Ran (PowerShell (PreventiveCopy (site_path cfg) bp)) pr,
                       Ran (Direct (AppcmdStop (site_name cfg))) sr,
                       Ran (PowerShell (RemoveContents (site_path cfg))) dr,
                       Ran (Direct (Robocopy src (site_path cfg))) cr] @ tail"
    "mode res = md" "RollbackResult.backup_path res = RollbackConfig.backup_path cfg"
    "RollbackResult.temp_folder res = []"
    "preventive_backup_path res = (if cmd_result.success pr then Some bp else None)"
    "return_code cr \<in> {0, 1, 2} \<Longrightarrow>
       p = Finished \<and> RollbackResult.success res
       \<and> (\<exists>tr. tail = [Ran (Direct (AppcmdStart (site_name cfg))) tr]
             \<and> error res =
                 summary ((if cmd_result.success sr then []
                           else [''Failed to stop site: '' @ stderr sr])
                        @ (if cmd_result.success dr then []
                           else [''Failed to delete content: '' @ stderr dr])
                        @ (if cmd_result.success tr then []
                           else [''Failed to start site: '' @ stderr tr])))"
    "return_code cr \<notin> {0, 1, 2} \<Longrightarrow>
       p = CopyAbort \<and> \<not> RollbackResult.success res \<and> tail = []
       \<and> error res = ''Failed to copy files: '' @ stderr cr"
proof -
  obtain bp pr prev s1 where
    1: "create_preventive_backup E ex (site_path cfg)
          (path_dirname E (RollbackConfig.backup_path cfg)) (site_name cfg) s = (Inr prev, s1)"
    and l1: "log s1 = log s @ [Ran (PowerShell (PreventiveCopy (site_path cfg) bp)) pr]"
    and p1: "preventive_result.backup_path prev = (if cmd_result.success pr then Some bp else None)"
    using create_preventive_backup_connected [OF con] by blast
  obtain sr s2 where 2: "stop_site E ex (site_name cfg) s1 = (Inr sr, s2)"
    and l2: "log s2 = log s1 @ [Ran (Direct (AppcmdStop (site_name cfg))) sr]"
    using stop_site_connected [OF con] by blast
  obtain dr s3 where 3: "delete_site_content E ex (site_path cfg) True s2 = (Inr dr, s3)"
    and l3: "log s3 = log s2 @ [Ran (PowerShell (RemoveContents (site_path cfg))) dr]"
    using delete_site_content_connected [OF con] by blast
  obtain cr cres s4 where 4: "copy_files E ex src (site_path cfg) s3 = (Inr cres, s4)"
    and l4: "log s4 = log s3 @ [Ran (Direct (Robocopy src (site_path cfg))) cr]"
    and c4: "cmd_result.success cres = (return_code cr \<in> {0, 1, 2})"
    and e4: "stderr cres = stderr cr"
    using copy_files_connected [OF con] by blast
  let ?errs = "(if cmd_result.success sr then [] else [''Failed to stop site: '' @ stderr sr])
             @ (if cmd_result.success dr then [] else [''Failed to delete content: '' @ stderr dr])"
  show thesis
  proof (cases "return_code cr \<in> {0, 1, 2}")
    case True
    obtain tr s5 where 5: "finish_run E ex bm cfg md [] prev ?errs s4 =
           (Inr (\<lparr>success = True, mode = md,
                  backup_path = RollbackConfig.backup_path cfg,
                  preventive_backup_path = preventive_result.backup_path prev,
                  temp_folder = [],
                  error = summary (?errs @ (if cmd_result.success tr then []
                                            else [''Failed to start site: '' @ stderr tr]))\<rparr>,
                 Finished), bm, s5)"
      and l5: "log s5 = log s4 @ [Ran (Direct (AppcmdStart (site_name cfg))) tr]"
      using finish_run_connected [OF con] by blast
    have run: "restore_steps E ex bm cfg md src [] s =
           (Inr (\<lparr>success = True, mode = md,
                  backup_path = RollbackConfig.backup_path cfg,
                  preventive_backup_path = preventive_result.backup_path prev,
                  temp_folder = [],
                  error = summary (?errs @ (if cmd_result.success tr then []
                                            else [''Failed to start site: '' @ stderr tr]))\<rparr>,
                 Finished), bm, s5)"
      using 1 2 3 4 5 c4 True
      by (cases "cmd_result.success sr"; cases "cmd_result.success dr")
         (simp_all add: restore_steps_def Let_def)
    show thesis
      by (rule that [OF run, of bp pr sr dr cr "[Ran (Direct (AppcmdStart (site_name cfg))) tr]"])
         (use True l1 l2 l3 l4 l5 p1 in simp_all)
  next
    case False
    have run: "restore_steps E ex bm cfg md src [] s =
           (Inr (\<lparr>success = False, mode = md,
                  backup_path = RollbackConfig.backup_path cfg,
                  preventive_backup_path = preventive_result.backup_path prev,
                  temp_folder = [],
                  error = ''Failed to copy files: '' @ stderr cr\<rparr>, CopyAbort), bm, s4)"
      using 1 2 3 4 c4 e4 False by (simp add: restore_steps_def Let_def)
    show thesis
      by (rule that [OF run, of bp pr sr dr cr "[]"])
         (use False l1 l2 l3 l4 p1 in simp_all)
  qed
qed

section \<open>The shape of every run\<close>

lemma disconnect_ssh_connected:
  "ssh ag = Some ex \<Longrightarrow> connected ex \<Longrightarrow> client ex \<Longrightarrow>
   disconnect_ssh ag s = (ag\<lparr>ssh := Some (ex\<lparr>connected := False\<rparr>)\<rparr>, s\<lparr>log := log s @ [Close]\<rparr>)"
  by (simp add: disconnect_ssh_def disconnect_def)

lemma disconnect_ssh_commands:
  "disconnect_ssh ag s = (ag', s') \<Longrightarrow> commands (log s') = commands (log s)"
  by (auto simp: disconnect_ssh_def disconnect_def split: option.splits if_splits)

lemma run_cases:
  assumes run: "execute_rollback E cfg ag (init_sys w) = ((res, p), ag', s')"
  obtains
    (connect) "p = ConnectAbort" "res = failure ''Failed to establish SSH connection''"
      "commands (log s') = []"
  | (classify) d :: detection and pre where "p = ClassifyAbort" "res = failure (detection.message d)"
      "log s' = pre @ [Close]"
      "commands pre = [PowerShell (CountZips (RollbackConfig.backup_path cfg))]"
  | (exception) pre where "p = ExceptionAbort (NameError ''name 'basePath' is not defined'')"
      "res = failure ''name 'basePath' is not defined''"
      "log s' = pre @ [Close]"
      "commands pre = [PowerShell (CountZips (RollbackConfig.backup_path cfg)),
                       PowerShell (ZipInfo (RollbackConfig.backup_path cfg))]"
  | (restore) pre bp pr sr dr cr tail where
      "log s' = pre @ [Ran (PowerShell (PreventiveCopy (site_path cfg) bp)) pr,
                       Ran (Direct (AppcmdStop (site_name cfg))) sr,
                       Ran (PowerShell (RemoveContents (site_path cfg))) dr,
                       Ran (Direct (Robocopy (RollbackConfig.backup_path cfg) (site_path cfg))) cr]
                 @ tail @ [Close]"
      "commands pre = [PowerShell (CountZips (RollbackConfig.backup_path cfg)),
                       PowerShell (FolderInfo (RollbackConfig.backup_path cfg))]"
      "mode res = ''folder''"
      "RollbackResult.backup_path res = RollbackConfig.backup_path cfg"
      "RollbackResult.temp_folder res = []"
      "preventive_backup_path res = (if cmd_result.success pr then Some bp else None)"
      "return_code cr \<in> {0, 1, 2} \<Longrightarrow>
         p = Finished \<and> RollbackResult.success res
         \<and> (\<exists>tr. tail = [Ran (Direct (AppcmdStart (site_name cfg))) tr]
               \<and> error res =
                   summary ((if cmd_result.success sr then []
                             else [''Failed to stop site: '' @ stderr sr])
                          @ (if cmd_result.success dr then []
                             else [''Failed to delete content: '' @ stderr dr])
                          @ (if cmd_result.success tr then []
                             else [''Failed to start site: '' @ stderr tr])))"
      "return_code cr \<notin> {0, 1, 2} \<Longrightarrow>
         p = CopyAbort \<and> \<not> RollbackResult.success res \<and> tail = []
         \<and> error res = ''Failed to copy files: '' @ stderr cr"
proof -
  obtain ok ag1 s1 where c: "connect_ssh E (ssh_config cfg) ag (init_sys w) = (ok, ag1, s1)"
    by (cases "connect_ssh E (ssh_config cfg) ag (init_sys w)") auto
  note cc = connect_ssh_cases [OF c]
  have cmds1: "commands (log s1) = []" using cc by (simp add: init_sys_def)
  show thesis
  proof (cases ok)
    case False
    from run c False have r: "p = ConnectAbort"
      "res = failure ''Failed to establish SSH connection''"
      and d: "disconnect_ssh ag1 s1 = (ag', s')"
      by (auto simp: execute_rollback_def rollback_try_def split: prod.splits)
    from disconnect_ssh_commands [OF d] cmds1 have "commands (log s') = []" by simp
    with r show thesis by (rule connect)
  next
    case True
    with cc obtain ex where ex: "ssh ag1 = Some ex" "connected ex" "client ex"
      and bm: "backup ag1 = Some \<lparr>BackupManager.temp_folder = None\<rparr>" by auto
    obtain d s2 pre where det: "detect_backup_type E ex (RollbackConfig.backup_path cfg) s1 = (Inr d, s2)"
      and l2: "log s2 = log s1 @ pre"
      and cp: "commands pre =
         (case detection.type d of
            RollbackMode.NONE \<Rightarrow> [PowerShell (CountZips (RollbackConfig.backup_path cfg))]
          | RollbackMode.ZIP \<Rightarrow> [PowerShell (CountZips (RollbackConfig.backup_path cfg)),
                                  PowerShell (ZipInfo (RollbackConfig.backup_path cfg))]
          | RollbackMode.FOLDER \<Rightarrow> [PowerShell (CountZips (RollbackConfig.backup_path cfg)),
                                     PowerShell (FolderInfo (RollbackConfig.backup_path cfg))])"
      using detect_connected [OF ex(2)] by blast
    show thesis
    proof (cases "detection.type d")
      case NONE
      have t: "rollback_try E cfg ag (init_sys w)
                 = (Inr (failure (detection.message d), ClassifyAbort), ag1, s2)"
        using c True ex bm det NONE by (simp add: rollback_try_def)
      from run t have r: "p = ClassifyAbort" "res = failure (detection.message d)"
        and dd: "disconnect_ssh ag1 s2 = (ag', s')"
        by (auto simp: execute_rollback_def split: prod.splits)
      from dd have l: "log s' = (log s1 @ pre) @ [Close]"
        by (simp add: disconnect_ssh_connected [OF ex] l2) auto
      have cm: "commands (log s1 @ pre) = [PowerShell (CountZips (RollbackConfig.backup_path cfg))]"
        using cmds1 cp NONE by simp
      from r l cm show thesis by (rule classify)
    next
      case ZIP
      have t: "rollback_try E cfg ag (init_sys w)
                 = (Inl (NameError ''name 'basePath' is not defined''),
                    ag1\<lparr>backup := Some \<lparr>BackupManager.temp_folder = None\<rparr>\<rparr>, s2)"
        using c True ex bm det ZIP by (simp add: rollback_try_def stage_zip_raises)
      from run t have r: "p = ExceptionAbort (NameError ''name 'basePath' is not defined'')"
        "res = failure ''name 'basePath' is not defined''"
        and dd: "disconnect_ssh (ag1\<lparr>backup := Some \<lparr>BackupManager.temp_folder = None\<rparr>\<rparr>) s2 = (ag', s')"
        by (auto simp: execute_rollback_def split: prod.splits)
      have "ssh (ag1\<lparr>backup := Some \<lparr>BackupManager.temp_folder = None\<rparr>\<rparr>) = Some ex"
        using ex by simp
      from dd disconnect_ssh_connected [OF this ex(2,3), where s = s2]
      have l: "log s' = (log s1 @ pre) @ [Close]"
        by (auto simp: l2)
      have cm: "commands (log s1 @ pre) = [PowerShell (CountZips (RollbackConfig.backup_path cfg)),
                       PowerShell (ZipInfo (RollbackConfig.backup_path cfg))]"
        using cmds1 cp ZIP by simp
      from r l cm show thesis by (rule exception)
    next
      case FOLDER
      obtain bp pr sr dr cr tail res0 p0 s3 where
        rs: "restore_steps E ex \<lparr>BackupManager.temp_folder = None\<rparr> cfg ''folder''
               (RollbackConfig.backup_path cfg) [] s2
             = (Inr (res0, p0), \<lparr>BackupManager.temp_folder = None\<rparr>, s3)"
        and l3: "log s3 = log s2 @ [Ran (PowerShell (PreventiveCopy (site_path cfg) bp)) pr,
                       Ran (Direct (AppcmdStop (site_name cfg))) sr,
                       Ran (PowerShell (RemoveContents (site_path cfg))) dr,
                       Ran (Direct (Robocopy (RollbackConfig.backup_path cfg) (site_path cfg))) cr]
                 @ tail"
        and f: "mode res0 = ''folder''"
          "RollbackResult.backup_path res0 = RollbackConfig.backup_path cfg"
          "RollbackResult.temp_folder res0 = []"
          "preventive_backup_path res0 = (if cmd_result.success pr then Some bp else None)"
        and ok: "return_code cr \<in> {0, 1, 2} \<Longrightarrow>
           p0 = Finished \<and> RollbackResult.success res0
           \<and> (\<exists>tr. tail = [Ran (Direct (AppcmdStart (site_name cfg))) tr]
               \<and> error res0 =
                   summary ((if cmd_result.success sr then []
                             else [''Failed to stop site: '' @ stderr sr])
                          @ (if cmd_result.success dr then []
                             else [''Failed to delete content: '' @ stderr dr])
                          @ (if cmd_result.success tr then []
                             else [''Failed to start site: '' @ stderr tr])))"
        and bad: "return_code cr \<notin> {0, 1, 2} \<Longrightarrow>
           p0 = CopyAbort \<and> \<not> RollbackResult.success res0 \<and> tail = []
           \<and> error res0 = ''Failed to copy files: '' @ stderr cr"
        by (rule restore_steps_connected [OF ex(2), of E "\<lparr>BackupManager.temp_folder = None\<rparr>" cfg
              "''folder''" "RollbackConfig.backup_path cfg" s2]) blast
      have t: "rollback_try E cfg ag (init_sys w)
                 = (Inr (res0, p0), ag1\<lparr>backup := Some \<lparr>BackupManager.temp_folder = None\<rparr>\<rparr>, s3)"
        using c True ex bm det FOLDER rs by (simp add: rollback_try_def)
      from run t have r: "p = p0" "res = res0"
        and dd: "disconnect_ssh (ag1\<lparr>backup := Some \<lparr>BackupManager.temp_folder = None\<rparr>\<rparr>) s3 = (ag', s')"
        by (auto simp: execute_rollback_def split: prod.splits)
      have "ssh (ag1\<lparr>backup := Some \<lparr>BackupManager.temp_folder = None\<rparr>\<rparr>) = Some ex"
        using ex by simp
      from dd disconnect_ssh_connected [OF this ex(2,3), where s = s3]
      have l: "log s' = log s3 @ [Close]"
        by auto
      have l': "log s' = (log s1 @ pre) @ [Ran (PowerShell (PreventiveCopy (site_path cfg) bp)) pr,
                       Ran (Direct (AppcmdStop (site_name cfg))) sr,
                       Ran (PowerShell (RemoveContents (site_path cfg))) dr,
                       Ran (Direct (Robocopy (RollbackConfig.backup_path cfg) (site_path cfg))) cr]
                 @ tail @ [Close]"
        using l l3 l2 by simp
      have cm: "commands (log s1 @ pre) = [PowerShell (CountZips (RollbackConfig.backup_path cfg)),
                       PowerShell (FolderInfo (RollbackConfig.backup_path cfg))]"
        using cmds1 cp FOLDER by simp
      show thesis
        by (rule restore [OF l' cm]) (use r f ok bad in simp_all)
    qed
  qed
qed

section \<open>Runs on the example hosts\<close>

lemmas string_defs = strip_def lstrip_def rstrip_def py_isspace_def py_int_def is_digit_def
  digit_of_def join_with_def str_int_def str_nat.simps digit_char_def

lemmas run_defs = execute_rollback_def rollback_try_def connect_ssh_def new_executor_def
  validate_config_def truthy_def connect_def retry_unfold connect_params_of_def
  detect_backup_type_def get_zip_info_def get_folder_info_def stage_zip_def
  create_temp_folder_def temp_folder_command_def restore_steps_def
  create_preventive_backup_def stop_site_def delete_site_content_def copy_files_def
  finish_run_def start_site_def cleanup_temp_folder_def disconnect_ssh_def disconnect_def
  execute_command_def failure_def Let_def

lemmas fixture_defs = scripted_env_def ok_host_def failing_host_def archive_host_def
  is_preventive_copy_def is_stop_def is_restore_copy_def
  demo_config_def demo_executor_def demo_rollback_def fresh_agent_def init_sys_def

lemma archive_run:
  "execute_rollback (scripted_env None archive_host) demo_rollback fresh_agent (init_sys ()) =
     ((failure ''name 'basePath' is not defined'',
       ExceptionAbort (NameError ''name 'basePath' is not defined'')),
      \<lparr>ssh = Some (demo_executor\<lparr>connected := False\<rparr>),
       backup = Some \<lparr>BackupManager.temp_folder = None\<rparr>\<rparr>,
      \<lparr>world = (),
       log = [Dial (ConnectParams ''10.0.0.5'' 22 ''admin'' 30 (Some ''secret'') None),
              Ran (PowerShell (CountZips ''E:/Backups/MyWebsite/Backup20240101''))
                \<lparr>cmd_result.success = True, stdout = ''1'', stderr = [], return_code = 0\<rparr>,
              Ran (PowerShell (ZipInfo ''E:/Backups/MyWebsite/Backup20240101''))
                \<lparr>cmd_result.success = True,
                 stdout = ''site_20240101.zip|2024-01-01 10:00:00'', stderr = [],
                 return_code = 0\<rparr>,
              Close]\<rparr>)"
  by (simp add: run_defs fixture_defs string_defs)

lemma one_zip_run:
  "execute_rollback (scripted_env None (ok_host ''1'')) demo_rollback fresh_agent (init_sys ()) =
     ((failure ''name 'basePath' is not defined'',
       ExceptionAbort (NameError ''name 'basePath' is not defined'')),
      \<lparr>ssh = Some (demo_executor\<lparr>connected := False\<rparr>),
       backup = Some \<lparr>BackupManager.temp_folder = None\<rparr>\<rparr>,
      \<lparr>world = (),
       log = [Dial (ConnectParams ''10.0.0.5'' 22 ''admin'' 30 (Some ''secret'') None),
              Ran (PowerShell (CountZips ''E:/Backups/MyWebsite/Backup20240101''))
                \<lparr>cmd_result.success = True, stdout = ''1'', stderr = [], return_code = 0\<rparr>,
              Ran (PowerShell (ZipInfo ''E:/Backups/MyWebsite/Backup20240101''))
                \<lparr>cmd_result.success = True, stdout = [], stderr = [], return_code = 0\<rparr>,
              Close]\<rparr>)"
  by (simp add: run_defs fixture_defs string_defs)

theorem unparsable_count_is_folder_witness:
  "execute_command (scripted_env None (ok_host ''two'')) demo_executor
       (CountZips ''E:/Backups/MyWebsite'') 60 True (init_sys ())
     = (Inr \<lparr>cmd_result.success = True, stdout = ''two'', stderr = [], return_code = 0\<rparr>,
        \<lparr>world = (),
         log = [Ran (PowerShell (CountZips ''E:/Backups/MyWebsite''))
                  \<lparr>cmd_result.success = True, stdout = ''two'', stderr = [],
                   return_code = 0\<rparr>]\<rparr>)
   \<and> py_int (strip ''two'') = None
   \<and> (\<exists>d s'. detect_backup_type (scripted_env None (ok_host ''two'')) demo_executor
                 ''E:/Backups/MyWebsite'' (init_sys ()) = (Inr d, s')
             \<and> detection.type d = RollbackMode.FOLDER \<and> zip_count d = 0)"
proof -
  let ?r = "\<lparr>cmd_result.success = True, stdout = ''two'', stderr = [], return_code = 0\<rparr>"
  have a: "execute_command (scripted_env None (ok_host ''two'')) demo_executor
       (CountZips ''E:/Backups/MyWebsite'') 60 True (init_sys ())
     = (Inr ?r,
        \<lparr>world = (),
         log = [Ran (PowerShell (CountZips ''E:/Backups/MyWebsite'')) ?r]\<rparr>)"
    by (simp add: execute_command_def fixture_defs string_defs Let_def)
  have b: "cmd_result.success ?r" by simp
  have c: "py_int (strip (stdout ?r)) = None" by (simp add: string_defs)
  show ?thesis
    using a c unparsable_count_is_folder [OF a b c]
    by auto
qed

section \<open>Rollback Orchestrator\<close>

lemma summary_prefix: "prefix (''Completed with errors: '' @ e) (summary ((e # es) @ fs))"
  by (simp add: summary_def join_with_def)

lemma summary_nil: "summary [] = []"
  by (simp add: summary_def)

text \<open>
  A run that reaches the end of the step sequence has \<open>success = True\<close>, also with
  accumulated step errors. When the stop step failed and the run reached the end, as it
  does whenever the restore copy succeeded, the error summary is non-empty and starts
  with the stop failure.
\<close>

lemma finished_run_succeeds:
  assumes run: "execute_rollback E cfg ag (init_sys w) = ((res, p), ag', s')"
  shows "(p = Finished \<longrightarrow> RollbackResult.success res)
   \<and> (\<forall>sr. Ran (Direct (AppcmdStop (site_name cfg))) sr \<in> set (log s') \<longrightarrow>
          \<not> cmd_result.success sr \<longrightarrow>
          (p = Finished
           \<or> (\<exists>src cr. Ran (Direct (Robocopy src (site_path cfg))) cr \<in> set (log s')
                       \<and> return_code cr \<in> {0, 1, 2})) \<longrightarrow>
          p = Finished \<and> RollbackResult.success res \<and> error res \<noteq> []
          \<and> prefix (''Completed with errors: Failed to stop site: '' @ stderr sr) (error res))"
  using run
proof (cases rule: run_cases)
  case connect
  then show ?thesis using in_commands [of _ _ "log s'"] by (auto simp: failure_def)
next
  case (classify d pre)
  have "Ran (Direct (Robocopy src (site_path cfg))) cr \<notin> set pre" for src cr
    using in_commands [of "Direct (Robocopy src (site_path cfg))" cr pre] classify(4) by auto
  with classify show ?thesis by (auto simp: failure_def)
next
  case (exception pre)
  have "Ran (Direct (Robocopy src (site_path cfg))) cr \<notin> set pre" for src cr
    using in_commands [of "Direct (Robocopy src (site_path cfg))" cr pre] exception(4) by auto
  with exception show ?thesis by (auto simp: failure_def)
next
  case (restore pre bp pr sr0 dr cr0 tail)
  have stop_pre: "Ran (Direct (AppcmdStop (site_name cfg))) sr \<notin> set pre" for sr
    using in_commands [of "Direct (AppcmdStop (site_name cfg))" sr pre] restore(2) by auto
  have copy_pre: "Ran (Direct (Robocopy src (site_path cfg))) cr \<notin> set pre" for src cr
    using in_commands [of "Direct (Robocopy src (site_path cfg))" cr pre] restore(2) by auto
  show ?thesis
  proof (cases "return_code cr0 \<in> {0, 1, 2}")
    case False
    with restore(8) have ab: "p = CopyAbort" "\<not> RollbackResult.success res" "tail = []"
      by auto
    have "cr = cr0" if "Ran (Direct (Robocopy src (site_path cfg))) cr \<in> set (log s')"
      for src cr
      using that copy_pre by (auto simp: restore(1) ab)
    with False ab show ?thesis by auto
  next
    case True
    with restore(7) obtain tr where fin: "p = Finished" "RollbackResult.success res"
      and tl: "tail = [Ran (Direct (AppcmdStart (site_name cfg))) tr]"
      and err: "error res =
                   summary ((if cmd_result.success sr0 then []
                             else [''Failed to stop site: '' @ stderr sr0])
                          @ (if cmd_result.success dr then []
                             else [''Failed to delete content: '' @ stderr dr])
                          @ (if cmd_result.success tr then []
                             else [''Failed to start site: '' @ stderr tr]))"
      by blast
    have stop_unique: "sr = sr0"
      if "Ran (Direct (AppcmdStop (site_name cfg))) sr \<in> set (log s')" for sr
      using that stop_pre by (auto simp: restore(1) tl)
    have "prefix (''Completed with errors: Failed to stop site: '' @ stderr sr0) (error res)
          \<and> error res \<noteq> []"
      if "\<not> cmd_result.success sr0"
      using that summary_prefix [of "''Failed to stop site: '' @ stderr sr0" "[]"]
      by (auto simp: err summary_def join_with_def)
    with fin stop_unique show ?thesis by auto
  qed
qed

lemma rollback_try_ssh:
  "rollback_try E cfg ag s = (r, ag1, s1) \<Longrightarrow>
   ssh ag1 = ssh (fst (snd (connect_ssh E (ssh_config cfg) ag s)))"
  by (auto simp: rollback_try_def Let_def split: prod.splits option.splits if_splits sum.splits)

lemma disconnect_ssh_releases:
  "\<forall>ex. ssh ag = Some ex \<longrightarrow> connected ex \<longrightarrow> client ex \<Longrightarrow>
   disconnect_ssh ag s = (ag', s') \<Longrightarrow>
   \<forall>ex. ssh ag' = Some ex \<longrightarrow> \<not> connected ex"
  by (auto simp: disconnect_ssh_def disconnect_def split: option.splits if_splits)

lemma execute_rollback_releases:
  assumes wf: "\<forall>ex. ssh ag = Some ex \<longrightarrow> connected ex \<longrightarrow> client ex"
    and run: "execute_rollback E cfg ag s = (x, ag', s')"
  shows "\<forall>ex. ssh ag' = Some ex \<longrightarrow> \<not> connected ex"
proof -
  obtain r ag1 s1 where t: "rollback_try E cfg ag s = (r, ag1, s1)"
    by (cases "rollback_try E cfg ag s") auto
  obtain ok a1 t1 where c: "connect_ssh E (ssh_config cfg) ag s = (ok, a1, t1)"
    by (cases "connect_ssh E (ssh_config cfg) ag s") auto
  from rollback_try_ssh [OF t] c have eq: "ssh ag1 = ssh a1" by simp
  from connect_ssh_cases [OF c] wf
  have "\<forall>ex. ssh a1 = Some ex \<longrightarrow> connected ex \<longrightarrow> client ex" by (cases ok) auto
  with eq have wf1: "\<forall>ex. ssh ag1 = Some ex \<longrightarrow> connected ex \<longrightarrow> client ex" by simp
  from run t have "disconnect_ssh ag1 s1 = (ag', s')"
    by (auto simp: execute_rollback_def split: prod.splits)
  from disconnect_ssh_releases [OF wf1 this] show ?thesis .
qed

text \<open>
  Claim C3. Started from an agent whose executor, if connected, holds a client (true of a
  new agent and after every run), a run in which the restore copy ends with an exit code
  outside 0, 1, 2 returns \<open>success = False\<close>; on every exit path the agent's executor is
  not connected when the run returns, and a run that sent any command ends its log with
  the closing of the session.
\<close>

theorem copy_failure_fails_and_session_released:
  assumes wf: "\<forall>ex. ssh ag = Some ex \<longrightarrow> connected ex \<longrightarrow> client ex"
    and run: "execute_rollback E cfg ag (init_sys w) = ((res, p), ag', s')"
  shows "(\<forall>src cr. Ran (Direct (Robocopy src (site_path cfg))) cr \<in> set (log s') \<longrightarrow>
             return_code cr \<notin> {0, 1, 2} \<longrightarrow>
             \<not> RollbackResult.success res \<and> p = CopyAbort)
       \<and> (\<forall>ex. ssh ag' = Some ex \<longrightarrow> \<not> connected ex)
       \<and> (commands (log s') \<noteq> [] \<longrightarrow> last (log s') = Close)"
proof -
  note rel = execute_rollback_releases [OF wf run]
  from run show ?thesis
  proof (cases rule: run_cases)
    case connect
    then show ?thesis using rel in_commands [of _ _ "log s'"] by auto
  next
    case (classify d pre)
    have "Ran (Direct (Robocopy src (site_path cfg))) cr \<notin> set pre" for src cr
      using in_commands [of "Direct (Robocopy src (site_path cfg))" cr pre] classify(4) by auto
    with classify rel show ?thesis by auto
  next
    case (exception pre)
    have "Ran (Direct (Robocopy src (site_path cfg))) cr \<notin> set pre" for src cr
      using in_commands [of "Direct (Robocopy src (site_path cfg))" cr pre] exception(4) by auto
    with exception rel show ?thesis by auto
  next
    case (restore pre bp pr sr dr cr0 tail)
    have np: "Ran (Direct (Robocopy src (site_path cfg))) cr \<notin> set pre" for src cr
      using in_commands [of "Direct (Robocopy src (site_path cfg))" cr pre] restore(2) by auto
    have nt: "Ran (Direct (Robocopy src (site_path cfg))) cr \<notin> set tail" for src cr
      using restore(7,8) by (cases "return_code cr0 \<in> {0, 1, 2}") auto
    have uniq: "cr = cr0"
      if "Ran (Direct (Robocopy src (site_path cfg))) cr \<in> set (log s')" for src cr
      using that np nt by (auto simp: restore(1))
    have "last (log s') = Close" by (simp add: restore(1))
    with uniq restore(8) rel show ?thesis by blast
  qed
qed


lemma none_classification_aborts:
  assumes c: "connect_ssh E (ssh_config cfg) ag (init_sys w) = (True, ag1, t1)"
    and e: "ssh ag1 = Some ex1"
    and det: "detect_backup_type E ex1 (RollbackConfig.backup_path cfg) t1 = (Inr d, t2)"
    and n: "detection.type d = RollbackMode.NONE"
  shows "fst (execute_rollback E cfg ag (init_sys w)) = (failure (detection.message d), ClassifyAbort)
       \<and> commands (log (snd (snd (execute_rollback E cfg ag (init_sys w)))))
           = [PowerShell (CountZips (RollbackConfig.backup_path cfg))]"
proof -
  from connect_ssh_cases [OF c] e have ex: "connected ex1" "client ex1"
    and bm: "backup ag1 = Some \<lparr>BackupManager.temp_folder = None\<rparr>"
    and c1: "commands (log t1) = []"
    by (auto simp: init_sys_def)
  from detect_connected [OF ex(1), of E "RollbackConfig.backup_path cfg" t1] det n
  obtain pre where l2: "log t2 = log t1 @ pre"
    and cp: "commands pre = [PowerShell (CountZips (RollbackConfig.backup_path cfg))]"
    by auto
  have t: "rollback_try E cfg ag (init_sys w)
             = (Inr (failure (detection.message d), ClassifyAbort), ag1, t2)"
    using c e bm det n by (simp add: rollback_try_def)
  show ?thesis
    by (simp add: execute_rollback_def t disconnect_ssh_connected [OF e ex] l2 cp c1)
qed

text \<open>
  Claim C1. When the archive-count command succeeds, \<open>detect_backup_type\<close> follows the
  decision table: a count of 1 gives \<open>ZIP\<close>, a count of 0 gives \<open>FOLDER\<close>, a count of 2
  or more gives \<open>NONE\<close>. A run whose classification is \<open>NONE\<close> returns the classifier's
  message as a failed result, and the count is the only command it sent: no stop, no
  delete, no copy.
\<close>

theorem classify_follows_decision_table:
  assumes cnt: "execute_command E ex (CountZips bp) 60 True s = (Inr r, s1)"
    and ok: "cmd_result.success r"
  shows "(py_int (strip (stdout r)) = Some 1 \<longrightarrow>
            (\<exists>d s'. detect_backup_type E ex bp s = (Inr d, s')
                   \<and> detection.type d = RollbackMode.ZIP))
       \<and> (py_int (strip (stdout r)) = Some 0 \<longrightarrow>
            (\<exists>d s'. detect_backup_type E ex bp s = (Inr d, s')
                   \<and> detection.type d = RollbackMode.FOLDER))
       \<and> (\<forall>n. 2 \<le> n \<longrightarrow> py_int (strip (stdout r)) = Some n \<longrightarrow>
            (\<exists>d. detect_backup_type E ex bp s = (Inr d, s1)
                 \<and> detection.type d = RollbackMode.NONE \<and> backup_info d = None))
       \<and> (\<forall>cfg ag w ag1 t1 ex1 d t2.
             connect_ssh E (ssh_config cfg) ag (init_sys w) = (True, ag1, t1) \<longrightarrow>
             ssh ag1 = Some ex1 \<longrightarrow>
             detect_backup_type E ex1 (RollbackConfig.backup_path cfg) t1 = (Inr d, t2) \<longrightarrow>
             detection.type d = RollbackMode.NONE \<longrightarrow>
               fst (execute_rollback E cfg ag (init_sys w))
                 = (failure (detection.message d), ClassifyAbort)
             \<and> commands (log (snd (snd (execute_rollback E cfg ag (init_sys w)))))
                 = [PowerShell (CountZips (RollbackConfig.backup_path cfg))]
             \<and> (\<forall>l \<in> set (commands (log (snd (snd (execute_rollback E cfg ag (init_sys w)))))).
                   \<not> destructive l))"
proof -
  from cnt have con: "connected ex" by (rule execute_command_Inr_connected)
  obtain zr z2 where z: "execute_command E ex (ZipInfo bp) 60 True s1 = (Inr zr, z2)"
    using execute_command_connected [OF con] by blast
  obtain fr f2 where f: "execute_command E ex (FolderInfo bp) 60 True s1 = (Inr fr, f2)"
    using execute_command_connected [OF con] by blast
  have one: "py_int (strip (stdout r)) = Some 1 \<longrightarrow>
            (\<exists>d s'. detect_backup_type E ex bp s = (Inr d, s')
                   \<and> detection.type d = RollbackMode.ZIP)"
    by (simp add: detect_backup_type_def cnt ok get_zip_info_def z Let_def)
  have zero: "py_int (strip (stdout r)) = Some 0 \<longrightarrow>
            (\<exists>d s'. detect_backup_type E ex bp s = (Inr d, s')
                   \<and> detection.type d = RollbackMode.FOLDER)"
    by (simp add: detect_backup_type_def cnt ok get_folder_info_def f Let_def)
  have many: "\<forall>n. 2 \<le> n \<longrightarrow> py_int (strip (stdout r)) = Some n \<longrightarrow>
            (\<exists>d. detect_backup_type E ex bp s = (Inr d, s1)
                 \<and> detection.type d = RollbackMode.NONE \<and> backup_info d = None)"
    by (simp add: detect_backup_type_def cnt ok Let_def)
  have run: "\<forall>cfg ag w ag1 t1 ex1 d t2.
             connect_ssh E (ssh_config cfg) ag (init_sys w) = (True, ag1, t1) \<longrightarrow>
             ssh ag1 = Some ex1 \<longrightarrow>
             detect_backup_type E ex1 (RollbackConfig.backup_path cfg) t1 = (Inr d, t2) \<longrightarrow>
             detection.type d = RollbackMode.NONE \<longrightarrow>
               fst (execute_rollback E cfg ag (init_sys w))
                 = (failure (detection.message d), ClassifyAbort)
             \<and> commands (log (snd (snd (execute_rollback E cfg ag (init_sys w)))))
                 = [PowerShell (CountZips (RollbackConfig.backup_path cfg))]
             \<and> (\<forall>l \<in> set (commands (log (snd (snd (execute_rollback E cfg ag (init_sys w)))))).
                   \<not> destructive l)"
  proof (intro allI impI)
    fix cfg :: RollbackConfig and ag w ag1 t1 ex1 d t2
    assume a: "connect_ssh E (ssh_config cfg) ag (init_sys w) = (True, ag1, t1)"
      and b: "ssh ag1 = Some ex1"
      and c: "detect_backup_type E ex1 (RollbackConfig.backup_path cfg) t1 = (Inr d, t2)"
      and n: "detection.type d = RollbackMode.NONE"
    from none_classification_aborts [OF a b c n]
    show "fst (execute_rollback E cfg ag (init_sys w))
                 = (failure (detection.message d), ClassifyAbort)
             \<and> commands (log (snd (snd (execute_rollback E cfg ag (init_sys w)))))
                 = [PowerShell (CountZips (RollbackConfig.backup_path cfg))]
             \<and> (\<forall>l \<in> set (commands (log (snd (snd (execute_rollback E cfg ag (init_sys w)))))).
                   \<not> destructive l)"
      by simp
  qed
  from one zero many run show ?thesis by blast
qed

lemmas outcome_defs = ok_result_def denied_def copied_def done_agent_def demo_dial_def
  demo_preventive_def demo_folder_log_def

lemma stop_failure_full_run:
  "execute_rollback (scripted_env None (failing_host is_stop)) demo_rollback fresh_agent
     (init_sys ()) =
     ((\<lparr>success = True, mode = ''folder'',
        backup_path = ''E:/Backups/MyWebsite/Backup20240101'',
        preventive_backup_path = Some ''E:/Backups/MyWebsite/PreRollback_20240101_000000'',
        temp_folder = [],
        error = ''Completed with errors: Failed to stop site: Access is denied.''\<rparr>, Finished),
      done_agent,
      \<lparr>world = (),
       log = demo_folder_log (ok_result []) denied copied
               [Ran (Direct (AppcmdStart ''MyWebsite'')) (ok_result [])]\<rparr>)"
  by (simp add: run_defs fixture_defs string_defs outcome_defs)

lemma copy_failure_full_run:
  "execute_rollback (scripted_env None (failing_host is_restore_copy)) demo_rollback fresh_agent
     (init_sys ()) =
     ((\<lparr>success = False, mode = ''folder'',
        backup_path = ''E:/Backups/MyWebsite/Backup20240101'',
        preventive_backup_path = Some ''E:/Backups/MyWebsite/PreRollback_20240101_000000'',
        temp_folder = [],
        error = ''Failed to copy files: Access is denied.''\<rparr>, CopyAbort),
      done_agent,
      \<lparr>world = (), log = demo_folder_log (ok_result []) (ok_result []) denied []\<rparr>)"
  by (simp add: run_defs fixture_defs string_defs outcome_defs)


lemma finished_run_succeeds_after_stop_failure:
  "RollbackResult.success
     (fst (fst (execute_rollback (scripted_env None (failing_host is_stop)) demo_rollback
                  fresh_agent (init_sys ()))))
   \<and> snd (fst (execute_rollback (scripted_env None (failing_host is_stop)) demo_rollback
                  fresh_agent (init_sys ()))) = Finished
   \<and> prefix (''Completed with errors: Failed to stop site: '' @ stderr denied)
        (error (fst (fst (execute_rollback (scripted_env None (failing_host is_stop))
                            demo_rollback fresh_agent (init_sys ())))))"
proof -
  have mem: "Ran (Direct (AppcmdStop (site_name demo_rollback))) denied
             \<in> set (log \<lparr>world = (),
                          log = demo_folder_log (ok_result []) denied copied
                                  [Ran (Direct (AppcmdStart ''MyWebsite'')) (ok_result [])]\<rparr>)"
    by (simp add: demo_folder_log_def demo_rollback_def)
  have nf: "\<not> cmd_result.success denied" by (simp add: denied_def)
  from finished_run_succeeds
         [OF stop_failure_full_run, THEN conjunct2, rule_format, OF mem nf disjI1, OF refl]
  show ?thesis by (simp add: stop_failure_full_run)
qed

text \<open>
  Claim C2 on the code. On a host that counts one archive, every command succeeding, the
  connection is made, the classification is \<open>ZIP\<close> and neither an extraction nor a
  restore copy is sent: none of the four aborts happens. The run still ends with
  \<open>success = False\<close>, through the exception handler, with the \<open>NameError\<close> of
  \<open>create_temp_folder\<close> as its error.
\<close>

theorem zip_run_aborts_by_exception:
  "\<not> RollbackResult.success
       (fst (fst (execute_rollback (scripted_env None (ok_host ''1'')) demo_rollback
                    fresh_agent (init_sys ()))))
   \<and> snd (fst (execute_rollback (scripted_env None (ok_host ''1'')) demo_rollback
                  fresh_agent (init_sys ())))
       = ExceptionAbort (NameError ''name 'basePath' is not defined'')
   \<and> snd (fst (execute_rollback (scripted_env None (ok_host ''1'')) demo_rollback
                  fresh_agent (init_sys ())))
       \<notin> {ConnectAbort, ClassifyAbort, ExtractAbort, CopyAbort}
   \<and> error (fst (fst (execute_rollback (scripted_env None (ok_host ''1'')) demo_rollback
                         fresh_agent (init_sys ()))))
       = ''name 'basePath' is not defined''
   \<and> commands (log (snd (snd (execute_rollback (scripted_env None (ok_host ''1''))
                                 demo_rollback fresh_agent (init_sys ())))))
       = [PowerShell (CountZips ''E:/Backups/MyWebsite/Backup20240101''),
          PowerShell (ZipInfo ''E:/Backups/MyWebsite/Backup20240101'')]"
  by (simp add: one_zip_run failure_def)

text \<open>
  Claim C4 on the code. The host holds exactly one archive, \<open>site_20240101.zip\<close>. The run
  classifies it and then fails in \<open>create_temp_folder\<close> with \<open>NameError\<close>: the result
  is a failure whose mode is empty, and after the count and the archive query no command
  was sent, neither to create a staging directory nor to extract nor to copy.
\<close>

theorem single_archive_run_never_stages:
  "fst (execute_rollback (scripted_env None archive_host) demo_rollback fresh_agent
          (init_sys ()))
     = (failure ''name 'basePath' is not defined'',
        ExceptionAbort (NameError ''name 'basePath' is not defined''))
   \<and> mode (fst (fst (execute_rollback (scripted_env None archive_host) demo_rollback
                       fresh_agent (init_sys ())))) \<noteq> mode_value RollbackMode.ZIP
   \<and> commands (log (snd (snd (execute_rollback (scripted_env None archive_host)
                                 demo_rollback fresh_agent (init_sys ())))))
       = [PowerShell (CountZips ''E:/Backups/MyWebsite/Backup20240101''),
          PowerShell (ZipInfo ''E:/Backups/MyWebsite/Backup20240101'')]"
  by (simp add: archive_run failure_def)

theorem copy_failure_fails_and_session_released_witness:
  "\<not> RollbackResult.success
       (fst (fst (execute_rollback (scripted_env None (failing_host is_restore_copy))
                    demo_rollback fresh_agent (init_sys ()))))
   \<and> snd (fst (execute_rollback (scripted_env None (failing_host is_restore_copy))
                  demo_rollback fresh_agent (init_sys ()))) = CopyAbort
   \<and> map_option connected
         (ssh (fst (snd (execute_rollback (scripted_env None (failing_host is_restore_copy))
                           demo_rollback fresh_agent (init_sys ()))))) = Some False
   \<and> last (log (snd (snd (execute_rollback (scripted_env None (failing_host is_restore_copy))
                            demo_rollback fresh_agent (init_sys ()))))) = Close"
proof -
  have wf: "\<forall>ex. ssh fresh_agent = Some ex \<longrightarrow> connected ex \<longrightarrow> client ex"
    by (simp add: fresh_agent_def)
  have mem: "Ran (Direct (Robocopy ''E:/Backups/MyWebsite/Backup20240101''
                            (site_path demo_rollback))) denied
             \<in> set (log \<lparr>world = (),
                          log = demo_folder_log (ok_result []) (ok_result []) denied []\<rparr>)"
    by (simp add: demo_folder_log_def demo_rollback_def)
  have bad: "return_code denied \<notin> {0, 1, 2}" by (simp add: denied_def)
  have cmds: "commands (log \<lparr>world = (),
                          log = demo_folder_log (ok_result []) (ok_result []) denied []\<rparr>) \<noteq> []"
    by (simp add: demo_folder_log_def demo_dial_def)
  have ag: "ssh done_agent = Some (demo_executor\<lparr>connected := False\<rparr>)"
    by (simp add: done_agent_def)
  note T = copy_failure_fails_and_session_released [OF wf copy_failure_full_run]
  from T [THEN conjunct1, rule_format, OF mem bad]
       T [THEN conjunct2, THEN conjunct1, rule_format, OF ag]
       T [THEN conjunct2, THEN conjunct2, rule_format, OF cmds]
  show ?thesis by (simp add: copy_failure_full_run ag)
qed



lemma count_reply:
  "execute_command (scripted_env None (ok_host txt)) demo_executor
       (CountZips ''E:/Backups/MyWebsite/Backup20240101'') 60 True (init_sys ())
     = (Inr (ok_result (strip txt)),
        \<lparr>world = (),
         log = [Ran (PowerShell (CountZips ''E:/Backups/MyWebsite/Backup20240101''))
                  (ok_result (strip txt))]\<rparr>)"
  by (simp add: execute_command_def scripted_env_def ok_host_def demo_executor_def init_sys_def
        ok_result_def Let_def strip_def lstrip_def rstrip_def)

lemma three_archives_connect:
  "connect_ssh (scripted_env None (ok_host ''3'')) (ssh_config demo_rollback) fresh_agent
     (init_sys ())
   = (True,
      \<lparr>ssh = Some demo_executor, backup = Some \<lparr>BackupManager.temp_folder = None\<rparr>\<rparr>,
      \<lparr>world = (), log = [demo_dial]\<rparr>)"
  by (simp add: run_defs fixture_defs outcome_defs)

lemma three_archives_detect:
  "detect_backup_type (scripted_env None (ok_host ''3'')) demo_executor
     (RollbackConfig.backup_path demo_rollback) \<lparr>world = (), log = [demo_dial]\<rparr>
   = (Inr \<lparr>detection.type = RollbackMode.NONE, zip_count = 3, backup_info = None,
           message = ''Abort: 3 ZIP files found (expected 1)''\<rparr>,
      \<lparr>world = (),
       log = [demo_dial,
              Ran (PowerShell (CountZips ''E:/Backups/MyWebsite/Backup20240101''))
                (ok_result ''3'')]\<rparr>)"
  by (simp add: run_defs fixture_defs string_defs outcome_defs)

text \<open>
  The table on hosts that print 1, 0 and 3, and the run on the host that prints 3.
\<close>

theorem classify_follows_decision_table_witness:
  "(\<exists>d s'. detect_backup_type (scripted_env None (ok_host ''1'')) demo_executor
              ''E:/Backups/MyWebsite/Backup20240101'' (init_sys ()) = (Inr d, s')
           \<and> detection.type d = RollbackMode.ZIP)
   \<and> (\<exists>d s'. detect_backup_type (scripted_env None (ok_host ''0'')) demo_executor
              ''E:/Backups/MyWebsite/Backup20240101'' (init_sys ()) = (Inr d, s')
           \<and> detection.type d = RollbackMode.FOLDER)
   \<and> (\<exists>d s'. detect_backup_type (scripted_env None (ok_host ''3'')) demo_executor
              ''E:/Backups/MyWebsite/Backup20240101'' (init_sys ()) = (Inr d, s')
           \<and> detection.type d = RollbackMode.NONE)
   \<and> fst (execute_rollback (scripted_env None (ok_host ''3'')) demo_rollback fresh_agent
             (init_sys ()))
       = (failure ''Abort: 3 ZIP files found (expected 1)'', ClassifyAbort)
   \<and> commands (log (snd (snd (execute_rollback (scripted_env None (ok_host ''3''))
                                 demo_rollback fresh_agent (init_sys ())))))
       = [PowerShell (CountZips ''E:/Backups/MyWebsite/Backup20240101'')]"
proof -
  have okr: "\<And>txt. cmd_result.success (ok_result (strip txt))"
    by (simp add: ok_result_def)
  have one: "py_int (strip (stdout (ok_result (strip ''1'')))) = Some 1"
    by (simp add: ok_result_def string_defs)
  have zero: "py_int (strip (stdout (ok_result (strip ''0'')))) = Some 0"
    by (simp add: ok_result_def string_defs)
  have three: "py_int (strip (stdout (ok_result (strip ''3'')))) = Some 3"
    by (simp add: ok_result_def string_defs)
  have ge: "(2::int) \<le> 3" by simp
  have ex: "ssh \<lparr>ssh = Some demo_executor,
                 backup = Some \<lparr>BackupManager.temp_folder = None\<rparr>\<rparr> = Some demo_executor"
    by simp
  have none: "detection.type \<lparr>detection.type = RollbackMode.NONE, zip_count = 3,
                 backup_info = None,
                 message = ''Abort: 3 ZIP files found (expected 1)''\<rparr> = RollbackMode.NONE"
    by simp
  note T1 = classify_follows_decision_table [OF count_reply okr, of "''1''"]
  note T0 = classify_follows_decision_table [OF count_reply okr, of "''0''"]
  note T3 = classify_follows_decision_table [OF count_reply okr, of "''3''"]
  from T1 [THEN conjunct1, THEN mp, OF one]
       T0 [THEN conjunct2, THEN conjunct1, THEN mp, OF zero]
       T3 [THEN conjunct2, THEN conjunct2, THEN conjunct1, rule_format, OF ge three]
       T3 [THEN conjunct2, THEN conjunct2, THEN conjunct2, rule_format,
           OF three_archives_connect ex three_archives_detect none]
  show ?thesis by (auto simp: demo_rollback_def)
qed

end
